theory Spec2Isabelle
  imports Complex_Main "HOL-Library.AList"
begin

section \<open>Python exceptions\<close>

text \<open>
  Every \<^verbatim>\<open>raise\<close> of \<^verbatim>\<open>server/app.py\<close> and every exception a library call of
  it can throw is a value of this type. \<open>HTTPException\<close> carries the status code.
  \<open>CancelledError\<close> stands for \<^verbatim>\<open>anyio.get_cancelled_exc_class()\<close>,
  \<open>GeneratorExit\<close> for the exception \<^verbatim>\<open>close()\<close> throws into a suspended
  generator, \<open>KeyboardInterrupt\<close> for an interrupted blocking call and
  \<open>EngineError\<close> for any exception that comes out of the inference engine.
\<close>

datatype py_error =
    HTTPException nat
  | AssertionError
  | ValueError
  | AttributeError
  | RuntimeError
  | CancelledError
  | GeneratorExit
  | KeyboardInterrupt
  | EngineError

text \<open>A call that can raise gives \<open>Inl\<close> of the exception or \<open>Inr\<close> of its value.\<close>

fun returns :: "py_error + 'a \<Rightarrow> bool" where
  "returns (Inr v) = True"
| "returns (Inl e) = False"

section \<open>The access gate: \<^verbatim>\<open>get_llama_proxy\<close>\<close>

text \<open>
  \<^verbatim>\<open>llama_outer_lock\<close> and \<^verbatim>\<open>llama_inner_lock\<close> are the two module-level
  locks. The generator \<^verbatim>\<open>get_llama_proxy\<close> is modelled as the statement tree of
  its body, run by a big-step interpreter that knows sequencing, \<^verbatim>\<open>try/finally\<close>,
  the test of the local flag \<^verbatim>\<open>release_outer_lock\<close>, the two lock operations
  and \<^verbatim>\<open>yield\<close>.
\<close>

datatype lock = Outer | Inner

datatype gate_event = Acquired lock | Released lock | Yielded

datatype stmt =
    LockAcquire lock
  | LockRelease lock
  | AssignFlag bool
  | YieldProxy
  | Seq stmt stmt
  | TryFinally stmt stmt
  | IfFlag stmt

text \<open>
  The caller's view of the gate: which locks it holds, the value of its local flag
  and the lock operations it has performed so far, oldest first.
\<close>

record gate_state =
  held :: "lock set"
  release_outer_lock :: bool
  trace :: "gate_event list"

text \<open>
  How the scope around the yielded proxy is left: the generator is resumed normally
  (the \<^verbatim>\<open>with\<close> block ended, or \<^verbatim>\<open>ExitStack.close()\<close> ran), an exception of
  the block is thrown into it, or it is closed (cancellation, \<open>GeneratorExit\<close>).
\<close>

datatype scope_exit = NormalReturn | ExceptionThrown py_error | Cancelled

text \<open>
  What the environment decides in one execution: whether each blocking
  \<^verbatim>\<open>acquire()\<close> returns with the lock or is interrupted by an exception, and how the
  scope is left once the proxy has been yielded.
\<close>

record gate_env =
  acquire_returns :: "lock \<Rightarrow> bool"
  scope_exits :: scope_exit

datatype signal = Normal | Raise py_error

fun yield_signal :: "scope_exit \<Rightarrow> signal" where
  "yield_signal NormalReturn = Normal"
| "yield_signal (ExceptionThrown e) = Raise e"
| "yield_signal Cancelled = Raise GeneratorExit"

text \<open>
  \<^verbatim>\<open>Lock.release()\<close> raises \<open>RuntimeError\<close> on a lock that is not locked; for the
  caller's own holdings that is a release of a lock it does not hold. In
  \<open>TryFinally\<close> the finaliser always runs, and the signal of the body survives
  unless the finaliser raises itself.
\<close>

fun exec :: "gate_env \<Rightarrow> stmt \<Rightarrow> gate_state \<Rightarrow> signal \<times> gate_state" where
  "exec env (LockAcquire l) s =
     (if acquire_returns env l
      then (Normal, s\<lparr>held := insert l (held s), trace := trace s @ [Acquired l]\<rparr>)
      else (Raise KeyboardInterrupt, s))"
| "exec env (LockRelease l) s =
     (if l \<in> held s
      then (Normal, s\<lparr>held := held s - {l}, trace := trace s @ [Released l]\<rparr>)
      else (Raise RuntimeError, s))"
| "exec env (AssignFlag b) s = (Normal, s\<lparr>release_outer_lock := b\<rparr>)"
| "exec env YieldProxy s = (yield_signal (scope_exits env), s\<lparr>trace := trace s @ [Yielded]\<rparr>)"
| "exec env (Seq a b) s =
     (case exec env a s of
        (Normal, s') \<Rightarrow> exec env b s'
      | (Raise e, s') \<Rightarrow> (Raise e, s'))"
| "exec env (TryFinally a b) s =
     (case exec env a s of
        (sig, s') \<Rightarrow>
          (case exec env b s' of
             (Normal, s'') \<Rightarrow> (sig, s'')
           | (Raise e, s'') \<Rightarrow> (Raise e, s'')))"
| "exec env (IfFlag a) s =
     (if release_outer_lock s then exec env a s else (Normal, s))"

text \<open>The body of \<^verbatim>\<open>get_llama_proxy\<close>, statement by statement.\<close>

definition get_llama_proxy :: stmt where
  "get_llama_proxy =
     Seq (LockAcquire Outer)
    (Seq (AssignFlag True)
         (TryFinally
            (Seq (LockAcquire Inner)
                 (TryFinally
                    (Seq (LockRelease Outer)
                    (Seq (AssignFlag False)
                         YieldProxy))
                    (LockRelease Inner)))
            (IfFlag (LockRelease Outer))))"

text \<open>A caller enters the gate holding neither lock.\<close>

definition gate_init :: gate_state where
  "gate_init = \<lparr>held = {}, release_outer_lock = False, trace = []\<rparr>"

section \<open>The streaming publisher: \<^verbatim>\<open>get_event_publisher\<close>\<close>

text \<open>
  A Python generator, as what it will do from now on: yield a chunk and go on, run
  \<^verbatim>\<open>exit_stack.close()\<close> and go on, finish (\<open>StopIteration\<close>), or raise.
\<close>

datatype 'c gen =
    Yields 'c "'c gen"
  | ClosesExitStack "'c gen"
  | Stops
  | Raises py_error

text \<open>\<^verbatim>\<open>yield from g\<close> followed by the rest \<open>k\<close> of the enclosing generator.\<close>

fun yield_from :: "'c gen \<Rightarrow> 'c gen \<Rightarrow> 'c gen" where
  "yield_from (Yields c g) k = Yields c (yield_from g k)"
| "yield_from (ClosesExitStack g) k = ClosesExitStack (yield_from g k)"
| "yield_from Stops k = k"
| "yield_from (Raises e) k = Raises e"

text \<open>The chunks a generator yields when it is pulled to its end.\<close>

fun chunks_of :: "'c gen \<Rightarrow> 'c list" where
  "chunks_of (Yields c g) = c # chunks_of g"
| "chunks_of (ClosesExitStack g) = chunks_of g"
| "chunks_of Stops = []"
| "chunks_of (Raises e) = []"

text \<open>
  The callbacks an \<^verbatim>\<open>ExitStack\<close> holds. The only context the handlers enter is
  \<^verbatim>\<open>contextlib.contextmanager(get_llama_proxy)()\<close>; leaving it resumes the
  generator after its \<^verbatim>\<open>yield\<close>, which runs \<^verbatim>\<open>llama_inner_lock.release()\<close>.
\<close>

datatype exit_callback = GateExit

text \<open>
  The state of one streaming request: the \<open>data\<close> fields of the events sent on
  \<^verbatim>\<open>inner_send_chan\<close> (oldest first), the number of \<^verbatim>\<open>next()\<close> calls on the
  iterator, the number of \<^verbatim>\<open>request.is_disconnected()\<close> calls, the callbacks on
  the request's \<^verbatim>\<open>ExitStack\<close> (last pushed first), whether the request holds the
  inner lock, how often \<^verbatim>\<open>llama_inner_lock.release()\<close> has run for it, and the lines
  printed.
\<close>

record stream_state =
  sent :: "string list"
  pulls :: nat
  disconnect_checks :: nat
  exit_stack :: "exit_callback list"
  inner_locked :: bool
  gate_releases :: nat
  printed :: "string list"

fun run_callback :: "exit_callback \<Rightarrow> stream_state \<Rightarrow> stream_state" where
  "run_callback GateExit s =
     s\<lparr>inner_locked := False, gate_releases := Suc (gate_releases s)\<rparr>"

text \<open>
  \<^verbatim>\<open>ExitStack.close()\<close>: pops every callback, last pushed first, and calls it. A
  second call finds the stack empty.
\<close>

definition exit_stack_close :: "stream_state \<Rightarrow> stream_state" where
  "exit_stack_close s = fold run_callback (exit_stack s) (s\<lparr>exit_stack := []\<rparr>)"

text \<open>
  \<^verbatim>\<open>await inner_send_chan.send(dict(data=d))\<close>. A send is taken to return: the
  channel is bounded and the sender waits for room. Closing the channel at the end of
  \<^verbatim>\<open>async with inner_send_chan\<close> sends nothing and is left out.
\<close>

definition send :: "string \<Rightarrow> stream_state \<Rightarrow> stream_state" where
  "send d s = s\<lparr>sent := sent s @ [d]\<rparr>"

text \<open>
  What the publisher observes from outside: the answer of
  \<^verbatim>\<open>request.is_disconnected()\<close> and of \<^verbatim>\<open>llama_outer_lock.locked()\<close> after the
  chunk with a given index (from 0), and \<^verbatim>\<open>json.dumps\<close> on chunks.
\<close>

record 'c request =
  is_disconnected :: "nat \<Rightarrow> bool"
  outer_locked :: "nat \<Rightarrow> bool"
  json_dumps :: "'c \<Rightarrow> string"

record server_settings =
  interrupt_requests :: bool
  api_key :: "string option"

text \<open>
  The \<^verbatim>\<open>async for\<close> loop of \<^verbatim>\<open>get_event_publisher\<close>; \<open>i\<close> is the index of the
  next chunk. Each \<^verbatim>\<open>next()\<close> on the iterator ends in a chunk, in
  \<open>StopIteration\<close> or in an exception.
\<close>

fun publish_chunks ::
  "'c request \<Rightarrow> bool \<Rightarrow> nat \<Rightarrow> 'c gen \<Rightarrow> stream_state \<Rightarrow> signal \<times> stream_state" where
  "publish_chunks request interrupt i (Yields chunk iterator) s =
     (let s1 = s\<lparr>pulls := Suc (pulls s)\<rparr>;
          s2 = send (json_dumps request chunk) s1;
          s3 = s2\<lparr>disconnect_checks := Suc (disconnect_checks s2)\<rparr>
      in if is_disconnected request i then (Raise CancelledError, s3)
         else if interrupt \<and> outer_locked request i
              then (Raise CancelledError, send ''[DONE]'' s3)
              else publish_chunks request interrupt (Suc i) iterator s3)"
| "publish_chunks request interrupt i (ClosesExitStack iterator) s =
     publish_chunks request interrupt i iterator (exit_stack_close s)"
| "publish_chunks request interrupt i Stops s = (Normal, s\<lparr>pulls := Suc (pulls s)\<rparr>)"
| "publish_chunks request interrupt i (Raises e) s = (Raise e, s\<lparr>pulls := Suc (pulls s)\<rparr>)"

text \<open>
  The \<^verbatim>\<open>except\<close> clause of the publisher catches the cancellation class only,
  prints two lines and raises the exception again.
\<close>

fun except_cancelled :: "signal \<times> stream_state \<Rightarrow> signal \<times> stream_state" where
  "except_cancelled (Raise CancelledError, s) =
     (Raise CancelledError,
      s\<lparr>printed := printed s @ [''disconnected'', ''Disconnected from client (via refresh/close)'']\<rparr>)"
| "except_cancelled (sig, s) = (sig, s)"

text \<open>
  \<^verbatim>\<open>server_settings.interrupt_requests if server_settings else False\<close>.
\<close>

definition interrupt_enabled :: "server_settings option \<Rightarrow> bool" where
  "interrupt_enabled settings =
     (case settings of Some ss \<Rightarrow> interrupt_requests ss | None \<Rightarrow> False)"

definition get_event_publisher ::
  "'c request \<Rightarrow> server_settings option \<Rightarrow> 'c gen \<Rightarrow>
   (stream_state \<Rightarrow> stream_state) option \<Rightarrow> stream_state \<Rightarrow> signal \<times> stream_state" where
  "get_event_publisher request settings iterator on_complete s =
     (let interrupt = interrupt_enabled settings;
          tried = (case publish_chunks request interrupt 0 iterator s of
                     (Normal, s') \<Rightarrow> (Normal, send ''[DONE]'' s')
                   | (Raise e, s') \<Rightarrow> (Raise e, s'));
          handled = except_cancelled tried
      in (fst handled,
          case on_complete of
            Some callback \<Rightarrow> callback (snd handled)
          | None \<Rightarrow> snd handled))"

text \<open>
  The inner generator \<^verbatim>\<open>iterator()\<close> of \<^verbatim>\<open>create_completion\<close> and
  \<^verbatim>\<open>create_chat_completion\<close>: the first response, then the rest of the engine's
  stream, then \<^verbatim>\<open>exit_stack.close()\<close>.
\<close>

definition iterator :: "'c \<Rightarrow> 'c gen \<Rightarrow> 'c gen" where
  "iterator first_response iterator_or_completion =
     Yields first_response (yield_from iterator_or_completion (ClosesExitStack Stops))"

text \<open>
  The request's state when the handler starts to stream: the gate context has been
  entered on the request's \<^verbatim>\<open>ExitStack\<close>, so the inner lock is held.
\<close>

definition stream_init :: stream_state where
  "stream_init =
     \<lparr>sent = [], pulls = 0, disconnect_checks = 0, exit_stack = [GateExit],
      inner_locked = True, gate_releases = 0, printed = []\<rparr>"

text \<open>
  The data sender the handlers give to \<^verbatim>\<open>EventSourceResponse\<close>:
  \<^verbatim>\<open>get_event_publisher\<close> on \<^verbatim>\<open>iterator()\<close> with
  \<^verbatim>\<open>on_complete=exit_stack.close\<close>.
\<close>

definition data_sender ::
  "'c request \<Rightarrow> server_settings option \<Rightarrow> 'c \<Rightarrow> 'c gen \<Rightarrow> signal \<times> stream_state" where
  "data_sender request settings first_response iterator_or_completion =
     get_event_publisher request settings
       (iterator first_response iterator_or_completion) (Some exit_stack_close) stream_init"

text \<open>
  The two states the gate context of a streaming request can be in: still entered
  (its exit callback is on the stack and the inner lock has not been released), or
  left (the stack is empty and the inner lock has been released exactly once).
\<close>

definition gate_open :: "stream_state \<Rightarrow> bool" where
  "gate_open s \<longleftrightarrow> exit_stack s = [GateExit] \<and> gate_releases s = 0"

definition gate_closed :: "stream_state \<Rightarrow> bool" where
  "gate_closed s \<longleftrightarrow> exit_stack s = [] \<and> gate_releases s = 1 \<and> \<not> inner_locked s"

section \<open>Authentication\<close>

text \<open>
  \<^verbatim>\<open>authenticate\<close> returns \<^verbatim>\<open>True\<close> when no key is configured and the presented
  credentials when they are the key. \<open>authorization\<close> is what
  \<^verbatim>\<open>HTTPBearer(auto_error=False)\<close> hands over: \<open>None\<close> when the request has no
  bearer credentials, else the credentials.
\<close>

datatype auth_result = ReturnsTrue | ReturnsCredentials string

definition authenticate :: "server_settings \<Rightarrow> string option \<Rightarrow> py_error + auth_result" where
  "authenticate settings authorization =
     (case api_key settings of
        None \<Rightarrow> Inr ReturnsTrue
      | Some key \<Rightarrow>
          (case authorization of
             Some credentials \<Rightarrow>
               if credentials = key then Inr (ReturnsCredentials credentials)
               else Inl (HTTPException 401)
           | None \<Rightarrow> Inl (HTTPException 401)))"

text \<open>
  The routes of the router, in the order of the file, and the \<^verbatim>\<open>dependencies=\<close>
  list each decorator gives. FastAPI runs a route's dependencies before its handler;
  an exception of a dependency is the response.
\<close>

datatype route =
    Completions
  | CopilotCodexCompletions
  | Embeddings
  | ChatCompletions
  | Models
  | ExtrasTokenize
  | ExtrasTokenizeCount
  | ExtrasDetokenize
  | InternalModelInfo

datatype dependency = Depends_authenticate

fun dependencies :: "route \<Rightarrow> dependency list" where
  "dependencies Completions = [Depends_authenticate]"
| "dependencies CopilotCodexCompletions = [Depends_authenticate]"
| "dependencies Embeddings = [Depends_authenticate]"
| "dependencies ChatCompletions = [Depends_authenticate]"
| "dependencies Models = [Depends_authenticate]"
| "dependencies ExtrasTokenize = [Depends_authenticate]"
| "dependencies ExtrasTokenizeCount = [Depends_authenticate]"
| "dependencies ExtrasDetokenize = [Depends_authenticate]"
| "dependencies InternalModelInfo = [Depends_authenticate]"

fun run_dependency :: "dependency \<Rightarrow> server_settings \<Rightarrow> string option \<Rightarrow> bool" where
  "run_dependency Depends_authenticate settings authorization =
     returns (authenticate settings authorization)"

text \<open>A request reaches the handler of a route when every dependency of the route returns.\<close>

definition admitted :: "route \<Rightarrow> server_settings \<Rightarrow> string option \<Rightarrow> bool" where
  "admitted r settings authorization =
     list_all (\<lambda>d. run_dependency d settings authorization) (dependencies r)"

section \<open>Request shaping: \<^verbatim>\<open>create_completion\<close> and \<^verbatim>\<open>create_chat_completion\<close>\<close>

text \<open>
  A Python \<^verbatim>\<open>str\<close> is represented by the bytes of its UTF-8 encoding, and an
  Isabelle string is a list of 8-bit characters; the code compares strings, encodes
  them and takes \<^verbatim>\<open>str()\<close> of integers, and never counts or indexes their
  characters. In this representation \<^verbatim>\<open>s.encode("utf-8")\<close> returns the
  representation itself.
\<close>

definition encode_utf8 :: "string \<Rightarrow> string" where
  "encode_utf8 s = s"

text \<open>\<^verbatim>\<open>str(i)\<close> for an integer: its decimal digits, with a minus sign when negative.\<close>

definition digit :: "nat \<Rightarrow> char" where
  "digit d = ''0123456789'' ! d"

fun str_nat :: "nat \<Rightarrow> string" where
  "str_nat n = (if n < 10 then [digit n] else str_nat (n div 10) @ [digit (n mod 10)])"

declare str_nat.simps [simp del]

definition str_int :: "int \<Rightarrow> string" where
  "str_int i = (if i < 0 then CHR ''-'' # str_nat (nat (- i)) else str_nat (nat i))"

text \<open>
  What the handlers use of the engine object \<^verbatim>\<open>llama\<close>:
  \<^verbatim>\<open>tokenize(bytes, add_bos, special)\<close> and \<^verbatim>\<open>token_eos()\<close>. The engine is not
  part of these sources; both are taken as given.
\<close>

record llama =
  tokenize :: "string \<Rightarrow> bool \<Rightarrow> bool \<Rightarrow> int list"
  token_eos :: int

text \<open>
  \<^verbatim>\<open>_logit_bias_tokens_to_input_ids\<close>. A dict is the list of its items in
  insertion order; \<open>AList.update\<close> is the assignment \<^verbatim>\<open>to_bias[k] = v\<close>: it
  replaces the value of a key that is present, in place, and appends a new key.
\<close>

definition logit_bias_tokens_to_input_ids ::
  "llama \<Rightarrow> (string \<times> real) list \<Rightarrow> (string \<times> real) list" where
  "logit_bias_tokens_to_input_ids llama logit_bias =
     fold (\<lambda>(token, score) to_bias.
             fold (\<lambda>input_id. AList.update (str_int input_id) score)
                  (tokenize llama (encode_utf8 token) False True) to_bias)
          logit_bias []"

text \<open>
  Every assignment \<^verbatim>\<open>to_bias[str(input_id)] = score\<close> the two nested loops make,
  in the order they make them.
\<close>

definition bias_assignments :: "llama \<Rightarrow> (string \<times> real) list \<Rightarrow> (string \<times> real) list" where
  "bias_assignments llama logit_bias =
     concat (map (\<lambda>(token, score).
                    map (\<lambda>input_id. (str_int input_id, score))
                        (tokenize llama (encode_utf8 token) False True))
                 logit_bias)"

text \<open>The values that occur in a request body and in the keyword arguments of the engine call.\<close>

datatype logits_processor = MinTokensLogitsProcessor int int | Processor nat

datatype pyval =
    PNone
  | PBool bool
  | PInt int
  | PFloat real
  | PStr string
  | PList "pyval list"
  | PDict "(string \<times> pyval) list"
  | LlamaGrammar string
  | PProcessor logits_processor
  | LogitsProcessorList "logits_processor list"

fun opt :: "('a \<Rightarrow> pyval) \<Rightarrow> 'a option \<Rightarrow> pyval" where
  "opt f None = PNone"
| "opt f (Some x) = f x"

definition bias_dict :: "(string \<times> real) list \<Rightarrow> pyval" where
  "bias_dict d = PDict (map (\<lambda>(k, v). (k, PFloat v)) d)"

datatype prompt_value = PromptStr string | PromptList "string list"

fun prompt_dump :: "prompt_value \<Rightarrow> pyval" where
  "prompt_dump (PromptStr s) = PStr s"
| "prompt_dump (PromptList xs) = PList (map PStr xs)"

text \<open>
  The request bodies. The classes \<^verbatim>\<open>CreateChatCompletionRequest\<close> and
  \<^verbatim>\<open>CreateCompletionRequest\<close> are not part of these sources: the fields the
  handlers read are fields of the records, and every other field of the request
  (\<^verbatim>\<open>n\<close>, \<^verbatim>\<open>best_of\<close>, \<^verbatim>\<open>user\<close>, \<^verbatim>\<open>stream\<close>, \<^verbatim>\<open>max_tokens\<close>, ...) is
  an item of \<open>other_fields\<close>, name and value.
\<close>

record chat_body =
  model :: "string option"
  logit_bias :: "(string \<times> real) list option"
  logit_bias_type :: "string option"
  grammar :: "string option"
  min_tokens :: int
  other_fields :: "(string \<times> pyval) list"

record completion_body = chat_body +
  prompt :: prompt_value

text \<open>
  \<^verbatim>\<open>body.model_dump(exclude=...)\<close>: the dict of all fields of the body, without
  the excluded names.
\<close>

definition chat_fields :: "'a chat_body_scheme \<Rightarrow> string \<rightharpoonup> pyval" where
  "chat_fields body =
     (map_of (other_fields body))
       (''model'' \<mapsto> opt PStr (model body),
        ''logit_bias'' \<mapsto> opt bias_dict (logit_bias body),
        ''logit_bias_type'' \<mapsto> opt PStr (logit_bias_type body),
        ''grammar'' \<mapsto> opt PStr (grammar body),
        ''min_tokens'' \<mapsto> PInt (min_tokens body))"

definition completion_fields :: "completion_body \<Rightarrow> string \<rightharpoonup> pyval" where
  "completion_fields body = (chat_fields body)(''prompt'' \<mapsto> prompt_dump (prompt body))"

definition model_dump :: "string set \<Rightarrow> (string \<rightharpoonup> pyval) \<Rightarrow> string \<rightharpoonup> pyval" where
  "model_dump exclude all_fields = all_fields |` (- exclude)"

definition exclude_completion :: "string set" where
  "exclude_completion = {''n'', ''best_of'', ''logit_bias_type'', ''user'', ''min_tokens''}"

definition exclude_chat :: "string set" where
  "exclude_chat = {''n'', ''logit_bias_type'', ''user'', ''min_tokens''}"

text \<open>
  What the handlers call outside these sources: \<^verbatim>\<open>llama_proxy(model)\<close>, which
  gives the engine for a model name or raises, and
  \<^verbatim>\<open>LlamaGrammar.from_string\<close>, which compiles a grammar or raises.
\<close>

record shaping_env =
  llama_proxy_call :: "string option \<Rightarrow> py_error + llama"
  from_string :: "string \<Rightarrow> py_error + pyval"

text \<open>
  The three steps both handlers apply to \<^verbatim>\<open>kwargs\<close> after the dump, in the same
  words in both: the logit bias, the grammar, and the minimum-tokens processor.
\<close>

definition set_logit_bias ::
  "llama \<Rightarrow> 'a chat_body_scheme \<Rightarrow> (string \<rightharpoonup> pyval) \<Rightarrow> string \<rightharpoonup> pyval" where
  "set_logit_bias llama body kwargs =
     (case logit_bias body of
        None \<Rightarrow> kwargs
      | Some bias \<Rightarrow>
          kwargs(''logit_bias'' \<mapsto>
            bias_dict (if logit_bias_type body = Some ''tokens''
                       then logit_bias_tokens_to_input_ids llama bias
                       else bias)))"

definition set_grammar ::
  "shaping_env \<Rightarrow> 'a chat_body_scheme \<Rightarrow> (string \<rightharpoonup> pyval) \<Rightarrow> py_error + (string \<rightharpoonup> pyval)" where
  "set_grammar env body kwargs =
     (case grammar body of
        None \<Rightarrow> Inr kwargs
      | Some g \<Rightarrow>
          (case from_string env g of
             Inl e \<Rightarrow> Inl e
           | Inr compiled \<Rightarrow> Inr (kwargs(''grammar'' \<mapsto> compiled))))"

text \<open>
  \<^verbatim>\<open>v.extend(processors)\<close> on a value of \<^verbatim>\<open>kwargs\<close>: a
  \<^verbatim>\<open>LogitsProcessorList\<close> and a plain list both have \<^verbatim>\<open>extend\<close>, which
  appends the members of its argument at the end; every other value here has no such
  attribute, and the call raises \<open>AttributeError\<close>.
\<close>

fun py_extend :: "pyval \<Rightarrow> logits_processor list \<Rightarrow> py_error + pyval" where
  "py_extend (LogitsProcessorList ps) processors = Inr (LogitsProcessorList (ps @ processors))"
| "py_extend (PList xs) processors = Inr (PList (xs @ map PProcessor processors))"
| "py_extend other processors = Inl AttributeError"

text \<open>
  The values of \<^verbatim>\<open>kwargs.get("logits_processor")\<close> with which the minimum-tokens
  step goes through: the key is absent, or its value has \<^verbatim>\<open>extend\<close>.
\<close>

fun extendable :: "pyval option \<Rightarrow> bool" where
  "extendable None = True"
| "extendable (Some (LogitsProcessorList ps)) = True"
| "extendable (Some (PList xs)) = True"
| "extendable (Some other) = False"

definition set_min_tokens ::
  "llama \<Rightarrow> 'a chat_body_scheme \<Rightarrow> (string \<rightharpoonup> pyval) \<Rightarrow> py_error + (string \<rightharpoonup> pyval)" where
  "set_min_tokens llama body kwargs =
     (if min_tokens body > 0
      then (let min_tokens_logits_processor =
                  [MinTokensLogitsProcessor (min_tokens body) (token_eos llama)]
            in case kwargs ''logits_processor'' of
                 None \<Rightarrow>
                   Inr (kwargs(''logits_processor'' \<mapsto>
                          LogitsProcessorList min_tokens_logits_processor))
               | Some present \<Rightarrow>
                   (case py_extend present min_tokens_logits_processor of
                      Inl e \<Rightarrow> Inl e
                    | Inr extended \<Rightarrow> Inr (kwargs(''logits_processor'' \<mapsto> extended))))
      else Inr kwargs)"

definition shape_kwargs ::
  "shaping_env \<Rightarrow> llama \<Rightarrow> 'a chat_body_scheme \<Rightarrow> (string \<rightharpoonup> pyval) \<Rightarrow>
   py_error + (string \<rightharpoonup> pyval)" where
  "shape_kwargs env llama body kwargs =
     (case set_grammar env body (set_logit_bias llama body kwargs) of
        Inl e \<Rightarrow> Inl e
      | Inr kwargs' \<Rightarrow> set_min_tokens llama body kwargs')"

text \<open>
  Lines 287 to 289 of \<^verbatim>\<open>create_completion\<close>: a prompt given as a list must
  have at most one element, and is replaced by that element, or by the empty string.
\<close>

fun single_prompt :: "prompt_value \<Rightarrow> py_error + prompt_value" where
  "single_prompt (PromptStr s) = Inr (PromptStr s)"
| "single_prompt (PromptList xs) =
     (if length xs \<le> 1
      then Inr (PromptStr (case xs of x # rest \<Rightarrow> x | [] \<Rightarrow> ''''))
      else Inl AssertionError)"

text \<open>
  \<^verbatim>\<open>create_completion\<close> up to the engine call: the result is the \<^verbatim>\<open>kwargs\<close>
  that \<^verbatim>\<open>llama\<close> is called with, or the exception that ends the request before
  the call. \<open>proxy\<close> is \<open>None\<close> when \<^verbatim>\<open>get_llama_proxy\<close> yields \<^verbatim>\<open>None\<close>;
  \<open>path\<close> is \<^verbatim>\<open>request.url.path\<close>.
\<close>

definition completion_model :: "string \<Rightarrow> 'a chat_body_scheme \<Rightarrow> string option" where
  "completion_model path body =
     (if path \<noteq> ''/v1/engines/copilot-codex/completions''
      then model body else Some ''copilot-codex'')"

definition create_completion ::
  "shaping_env option \<Rightarrow> string \<Rightarrow> completion_body \<Rightarrow> py_error + (string \<rightharpoonup> pyval)" where
  "create_completion proxy path body =
     (case proxy of
        None \<Rightarrow> Inl (HTTPException 503)
      | Some env \<Rightarrow>
          (case single_prompt (prompt body) of
             Inl e \<Rightarrow> Inl e
           | Inr p \<Rightarrow>
               (let body' = body\<lparr>prompt := p\<rparr>
                in case llama_proxy_call env (completion_model path body') of
                     Inl e \<Rightarrow> Inl e
                   | Inr llama \<Rightarrow>
                       shape_kwargs env llama body'
                         (model_dump exclude_completion (completion_fields body')))))"

text \<open>\<^verbatim>\<open>create_chat_completion\<close> up to the engine call.\<close>

definition create_chat_completion ::
  "shaping_env option \<Rightarrow> chat_body \<Rightarrow> py_error + (string \<rightharpoonup> pyval)" where
  "create_chat_completion proxy body =
     (case proxy of
        None \<Rightarrow> Inl (HTTPException 503)
      | Some env \<Rightarrow>
          (case llama_proxy_call env (model body) of
             Inl e \<Rightarrow> Inl e
           | Inr llama \<Rightarrow>
               shape_kwargs env llama body (model_dump exclude_chat (chat_fields body))))"

text \<open>
  The keyword argument of a given name in the engine call of a request: \<open>None\<close>
  when the name is not passed, or when the request ends before the call.
\<close>

fun passed :: "py_error + (string \<rightharpoonup> pyval) \<Rightarrow> string \<Rightarrow> pyval option" where
  "passed (Inr kwargs) k = kwargs k"
| "passed (Inl e) k = None"

section \<open>Model settings, embedding model selection and model info\<close>

text \<open>
  The fields of \<^verbatim>\<open>ModelSettings\<close> that \<^verbatim>\<open>app.py\<close> reads for these two
  handlers. The strings are only ever compared.
\<close>

record model_settings =
  model :: string
  model_alias :: "string option"
  embedding :: bool
  is_hf_embedding_model :: bool

text \<open>
  The \<^verbatim>\<open>for\<close> loop at the head of \<^verbatim>\<open>create_embedding\<close>: the value of
  \<^verbatim>\<open>setting\<close> when the loop is left. \<open>request_model\<close> is \<^verbatim>\<open>request.model\<close>.
\<close>

fun find_setting :: "string option \<Rightarrow> model_settings list \<Rightarrow> model_settings option" where
  "find_setting request_model [] = None"
| "find_setting request_model (m # rest) =
     (if request_model = None \<and> embedding m then Some m
      else if embedding m \<and>
              (request_model = Some (model m) \<or> request_model = model_alias m)
           then Some m
           else find_setting request_model rest)"

definition create_embedding_setting ::
  "string option \<Rightarrow> model_settings list \<Rightarrow> py_error + model_settings" where
  "create_embedding_setting request_model settings =
     (case find_setting request_model settings of
        None \<Rightarrow> Inl ValueError
      | Some setting \<Rightarrow> Inr setting)"

text \<open>
  The resolution order as the specification words it, for comparison with the loop:
  among the embedding-capable entries, an entry whose alias is the requested name
  first, then an entry whose alias or model name is the requested name; the first
  embedding-capable entry when no name is given.
\<close>

definition spec_embedding_resolution ::
  "string option \<Rightarrow> model_settings list \<Rightarrow> py_error + model_settings" where
  "spec_embedding_resolution request_model settings =
     (let capable = filter embedding settings;
          found =
            (case request_model of
               None \<Rightarrow> find (\<lambda>m. True) capable
             | Some name \<Rightarrow>
                 (case find (\<lambda>m. model_alias m = Some name) capable of
                    Some m \<Rightarrow> Some m
                  | None \<Rightarrow> find (\<lambda>m. model_alias m = Some name \<or> model m = name) capable))
      in case found of None \<Rightarrow> Inl ValueError | Some m \<Rightarrow> Inr m)"

text \<open>
  What \<^verbatim>\<open>info\<close> reads of the loaded engine (\<^verbatim>\<open>_llama_proxy._current_model\<close>)
  and of the proxy. The class of the proxy is not part of these sources; its
  \<^verbatim>\<open>_current_model\<close> is taken as given, \<open>None\<close> when no model has been loaded.
\<close>

record current_llama =
  model_path :: string
  lora_path :: "string option"

record llama_proxy =
  current_model :: "current_llama option"

record model_info =
  model_name :: string
  lora_names :: "string option"

text \<open>
  \<^verbatim>\<open>info\<close>: the loop returns at the first entry whose \<^verbatim>\<open>model\<close> is the path of the
  current model; a function that falls off its end returns \<^verbatim>\<open>None\<close>. Reading
  \<^verbatim>\<open>_current_model\<close> of a missing proxy, or \<^verbatim>\<open>model_path\<close> of a missing model,
  raises \<open>AttributeError\<close>, in the loop's test, so only when the loop body runs.
\<close>

fun info :: "model_settings list \<Rightarrow> llama_proxy option \<Rightarrow> py_error + model_info option" where
  "info [] proxy = Inr None"
| "info (m # rest) proxy =
     (case proxy of
        None \<Rightarrow> Inl AttributeError
      | Some p \<Rightarrow>
          (case current_model p of
             None \<Rightarrow> Inl AttributeError
           | Some cur \<Rightarrow>
               if model_path cur = model m
               then Inr (Some \<lparr>model_name = (case model_alias m of Some a \<Rightarrow> a | None \<Rightarrow> model m),
                               lora_names = lora_path cur\<rparr>)
               else info rest proxy))"

section \<open>The access gate: lock protocol\<close>

text \<open>
  C1. In every execution of \<^verbatim>\<open>get_llama_proxy\<close> the caller takes the outer lock,
  then the inner lock, then gives the outer lock back, and only then is the proxy
  yielded; however the scope is left (normal return, exception, cancellation) the
  inner lock is released afterwards. When the inner lock was never obtained, so that
  the yield was never reached, the outer lock is released instead. In every case the
  caller holds neither lock once the generator has finished.
\<close>

theorem get_llama_proxy_lock_protocol:
  "held (snd (exec env get_llama_proxy gate_init)) = {} \<and>
   trace (snd (exec env get_llama_proxy gate_init)) =
     (if \<not> acquire_returns env Outer then []
      else if \<not> acquire_returns env Inner then [Acquired Outer, Released Outer]
      else [Acquired Outer, Acquired Inner, Released Outer, Yielded, Released Inner]) \<and>
   fst (exec env get_llama_proxy gate_init) =
     (if \<not> acquire_returns env Outer \<or> \<not> acquire_returns env Inner
      then Raise KeyboardInterrupt
      else yield_signal (scope_exits env))"
  by (cases "scope_exits env")
     (auto simp add: get_llama_proxy_def gate_init_def)

theorem get_llama_proxy_lock_protocol_witness:
  "held (snd (exec \<lparr>acquire_returns = (\<lambda>l. True), scope_exits = Cancelled\<rparr>
                   get_llama_proxy gate_init)) = {} \<and>
   trace (snd (exec \<lparr>acquire_returns = (\<lambda>l. True), scope_exits = Cancelled\<rparr>
                    get_llama_proxy gate_init)) =
     [Acquired Outer, Acquired Inner, Released Outer, Yielded, Released Inner] \<and>
   fst (exec \<lparr>acquire_returns = (\<lambda>l. True), scope_exits = Cancelled\<rparr>
             get_llama_proxy gate_init) = Raise GeneratorExit"
  using get_llama_proxy_lock_protocol
          [of "\<lparr>acquire_returns = (\<lambda>l. True), scope_exits = Cancelled\<rparr>"]
  by simp

section \<open>The streaming publisher: stop conditions\<close>

lemma fold_run_callback_fields:
  "sent (fold run_callback cbs s) = sent s \<and>
   pulls (fold run_callback cbs s) = pulls s \<and>
   disconnect_checks (fold run_callback cbs s) = disconnect_checks s \<and>
   printed (fold run_callback cbs s) = printed s \<and>
   exit_stack (fold run_callback cbs s) = exit_stack s"
proof (induction cbs arbitrary: s)
  case Nil
  show ?case by simp
next
  case (Cons cb cbs)
  show ?case by (cases cb) (simp add: Cons.IH)
qed

lemma exit_stack_close_fields:
  "sent (exit_stack_close s) = sent s"
  "pulls (exit_stack_close s) = pulls s"
  "disconnect_checks (exit_stack_close s) = disconnect_checks s"
  "printed (exit_stack_close s) = printed s"
  "exit_stack (exit_stack_close s) = []"
  by (simp_all add: exit_stack_close_def fold_run_callback_fields)

text \<open>
  The loop started at index \<open>i\<close>, when the first \<open>n\<close> chunks pass both checks and
  contention is seen after the next one.
\<close>

lemma publish_chunks_interrupted:
  assumes "\<forall>j<n. \<not> is_disconnected request (i + j) \<and> \<not> outer_locked request (i + j)"
    and "n < length (chunks_of it)"
    and "\<not> is_disconnected request (i + n)"
    and "outer_locked request (i + n)"
  shows "fst (publish_chunks request True i it s) = Raise CancelledError \<and>
         sent (snd (publish_chunks request True i it s)) =
           sent s @ map (json_dumps request) (take (Suc n) (chunks_of it)) @ [''[DONE]''] \<and>
         pulls (snd (publish_chunks request True i it s)) = pulls s + Suc n \<and>
         disconnect_checks (snd (publish_chunks request True i it s)) =
           disconnect_checks s + Suc n"
  using assms
proof (induction it arbitrary: i n s)
  case (Yields c g)
  show ?case
  proof (cases n)
    case 0
    with Yields.prems show ?thesis by (simp add: Let_def send_def)
  next
    case (Suc m)
    have a: "\<forall>j<m. \<not> is_disconnected request (Suc i + j) \<and> \<not> outer_locked request (Suc i + j)"
      using Yields.prems(1) Suc by auto
    have b: "m < length (chunks_of g)" using Yields.prems(2) Suc by simp
    have c0: "\<not> is_disconnected request i \<and> \<not> outer_locked request i"
      using Yields.prems(1) Suc by force
    have d: "\<not> is_disconnected request (Suc i + m)" "outer_locked request (Suc i + m)"
      using Yields.prems(3,4) Suc by simp_all
    note ih = Yields.IH[OF a b d]
    show ?thesis using c0 Suc by (simp add: Let_def send_def ih)
  qed
next
  case (ClosesExitStack g)
  have "n < length (chunks_of g)" using ClosesExitStack.prems(2) by simp
  from ClosesExitStack.IH[OF ClosesExitStack.prems(1) this ClosesExitStack.prems(3,4)]
  show ?case by (simp add: exit_stack_close_fields)
qed simp_all

text \<open>The same, when the client is found disconnected after the next chunk.\<close>

lemma publish_chunks_disconnected:
  assumes "\<forall>j<n. \<not> is_disconnected request (i + j) \<and>
                 \<not> (interrupt \<and> outer_locked request (i + j))"
    and "n < length (chunks_of it)"
    and "is_disconnected request (i + n)"
  shows "fst (publish_chunks request interrupt i it s) = Raise CancelledError \<and>
         sent (snd (publish_chunks request interrupt i it s)) =
           sent s @ map (json_dumps request) (take (Suc n) (chunks_of it)) \<and>
         pulls (snd (publish_chunks request interrupt i it s)) = pulls s + Suc n \<and>
         disconnect_checks (snd (publish_chunks request interrupt i it s)) =
           disconnect_checks s + Suc n"
  using assms
proof (induction it arbitrary: i n s)
  case (Yields c g)
  show ?case
  proof (cases n)
    case 0
    with Yields.prems show ?thesis by (simp add: Let_def send_def)
  next
    case (Suc m)
    have a: "\<forall>j<m. \<not> is_disconnected request (Suc i + j) \<and>
                   \<not> (interrupt \<and> outer_locked request (Suc i + j))"
      using Yields.prems(1) Suc by auto
    have b: "m < length (chunks_of g)" using Yields.prems(2) Suc by simp
    have c0: "\<not> is_disconnected request i \<and> \<not> (interrupt \<and> outer_locked request i)"
      using Yields.prems(1) Suc by force
    have d: "is_disconnected request (Suc i + m)"
      using Yields.prems(3) Suc by simp
    note ih = Yields.IH[OF a b d]
    show ?thesis using c0 Suc by (simp add: Let_def send_def ih)
  qed
next
  case (ClosesExitStack g)
  have "n < length (chunks_of g)" using ClosesExitStack.prems(2) by simp
  from ClosesExitStack.IH[OF ClosesExitStack.prems(1) this ClosesExitStack.prems(3)]
  show ?case by (simp add: exit_stack_close_fields)
qed simp_all

text \<open>
  C2. With \<^verbatim>\<open>interrupt_requests\<close> enabled: when the chunk with index \<open>i\<close> is reached
  (no earlier check stopped the stream) and, after it has been sent, the client is
  still connected and the outer lock is locked, the publisher sends exactly one more
  event, whose data is the literal \<^verbatim>\<open>[DONE]\<close>, and ends with the cancellation
  exception; the iterator has been pulled \<open>i + 1\<close> times, so no chunk beyond that one
  was asked for.
\<close>

theorem interrupt_on_contention_sends_done_then_aborts:
  assumes "settings = Some ss" and "interrupt_requests ss"
    and "on_complete = None \<or> on_complete = Some exit_stack_close"
    and "i < length (chunks_of it)"
    and "\<forall>j<i. \<not> is_disconnected request j \<and> \<not> outer_locked request j"
    and "\<not> is_disconnected request i" and "outer_locked request i"
  shows "fst (get_event_publisher request settings it on_complete s) = Raise CancelledError \<and>
         sent (snd (get_event_publisher request settings it on_complete s)) =
           sent s @ map (json_dumps request) (take (Suc i) (chunks_of it)) @ [''[DONE]''] \<and>
         pulls (snd (get_event_publisher request settings it on_complete s)) = pulls s + Suc i"
proof -
  have q: "\<forall>j<i. \<not> is_disconnected request (0 + j) \<and> \<not> outer_locked request (0 + j)"
    using assms(5) by simp
  have d: "\<not> is_disconnected request (0 + i)" "outer_locked request (0 + i)"
    using assms(6,7) by simp_all
  note loop = publish_chunks_interrupted[OF q assms(4) d, of s]
  obtain sig s' where r: "publish_chunks request True 0 it s = (sig, s')"
    by (cases "publish_chunks request True 0 it s")
  from loop r have sig: "sig = Raise CancelledError"
    and snt: "sent s' = sent s @ map (json_dumps request) (take (Suc i) (chunks_of it)) @ [''[DONE]'']"
    and pl: "pulls s' = pulls s + Suc i"
    by simp_all
  from assms(3) show ?thesis
  proof
    assume "on_complete = None"
    then show ?thesis
      using assms(1,2) r sig snt pl
      by (simp add: get_event_publisher_def interrupt_enabled_def)
  next
    assume "on_complete = Some exit_stack_close"
    then show ?thesis
      using assms(1,2) r sig snt pl
      by (simp add: get_event_publisher_def interrupt_enabled_def exit_stack_close_fields)
  qed
qed

theorem interrupt_on_contention_sends_done_then_aborts_witness:
  "fst (data_sender \<lparr>is_disconnected = (\<lambda>i. False), outer_locked = (\<lambda>i. i = 1), json_dumps = id\<rparr>
          (Some \<lparr>interrupt_requests = True, api_key = None\<rparr>)
          ''{1}'' (Yields ''{2}'' (Yields ''{3}'' Stops))) = Raise CancelledError \<and>
   sent (snd (data_sender
          \<lparr>is_disconnected = (\<lambda>i. False), outer_locked = (\<lambda>i. i = 1), json_dumps = id\<rparr>
          (Some \<lparr>interrupt_requests = True, api_key = None\<rparr>)
          ''{1}'' (Yields ''{2}'' (Yields ''{3}'' Stops)))) = [''{1}'', ''{2}'', ''[DONE]''] \<and>
   pulls (snd (data_sender
          \<lparr>is_disconnected = (\<lambda>i. False), outer_locked = (\<lambda>i. i = 1), json_dumps = id\<rparr>
          (Some \<lparr>interrupt_requests = True, api_key = None\<rparr>)
          ''{1}'' (Yields ''{2}'' (Yields ''{3}'' Stops)))) = 2"
  using interrupt_on_contention_sends_done_then_aborts
    [of "Some \<lparr>interrupt_requests = True, api_key = None\<rparr>"
        "\<lparr>interrupt_requests = True, api_key = None\<rparr>"
        "Some exit_stack_close" 1
        "iterator ''{1}'' (Yields ''{2}'' (Yields ''{3}'' Stops))"
        "\<lparr>is_disconnected = (\<lambda>i. False), outer_locked = (\<lambda>i. i = 1), json_dumps = id\<rparr>"
        stream_init]
  by (simp add: data_sender_def iterator_def stream_init_def)

text \<open>
  C4. The disconnect check runs after every chunk that is sent. When the chunk with
  index \<open>i\<close> is reached and the client is found disconnected after it has been sent,
  \<^verbatim>\<open>request.is_disconnected()\<close> has been called \<open>i + 1\<close> times, once per chunk sent;
  the events sent are the \<open>i + 1\<close> chunks and nothing else (no \<^verbatim>\<open>[DONE]\<close> frame,
  no error frame); the iterator has been pulled \<open>i + 1\<close> times; and the publisher
  ends with the cancellation exception, not with an error of the engine.
\<close>

theorem disconnect_aborts_without_done:
  assumes "on_complete = None \<or> on_complete = Some exit_stack_close"
    and "i < length (chunks_of it)"
    and "\<forall>j<i. \<not> is_disconnected request j \<and>
               \<not> (interrupt_enabled settings \<and> outer_locked request j)"
    and "is_disconnected request i"
  shows "fst (get_event_publisher request settings it on_complete s) = Raise CancelledError \<and>
         sent (snd (get_event_publisher request settings it on_complete s)) =
           sent s @ map (json_dumps request) (take (Suc i) (chunks_of it)) \<and>
         pulls (snd (get_event_publisher request settings it on_complete s)) = pulls s + Suc i \<and>
         disconnect_checks (snd (get_event_publisher request settings it on_complete s)) =
           disconnect_checks s + Suc i"
proof -
  have q: "\<forall>j<i. \<not> is_disconnected request (0 + j) \<and>
                 \<not> (interrupt_enabled settings \<and> outer_locked request (0 + j))"
    using assms(3) by simp
  have d: "is_disconnected request (0 + i)" using assms(4) by simp
  note loop = publish_chunks_disconnected[OF q assms(2) d, of s]
  obtain sig s' where r: "publish_chunks request (interrupt_enabled settings) 0 it s = (sig, s')"
    by (cases "publish_chunks request (interrupt_enabled settings) 0 it s")
  from loop r have sig: "sig = Raise CancelledError"
    and snt: "sent s' = sent s @ map (json_dumps request) (take (Suc i) (chunks_of it))"
    and pl: "pulls s' = pulls s + Suc i"
    and dc: "disconnect_checks s' = disconnect_checks s + Suc i"
    by simp_all
  from assms(1) show ?thesis
  proof
    assume "on_complete = None"
    then show ?thesis
      using r sig snt pl dc by (simp add: get_event_publisher_def)
  next
    assume "on_complete = Some exit_stack_close"
    then show ?thesis
      using r sig snt pl dc
      by (simp add: get_event_publisher_def exit_stack_close_fields)
  qed
qed

theorem disconnect_aborts_without_done_witness:
  "fst (data_sender \<lparr>is_disconnected = (\<lambda>i. i = 1), outer_locked = (\<lambda>i. False), json_dumps = id\<rparr>
          (Some \<lparr>interrupt_requests = True, api_key = None\<rparr>)
          ''{1}'' (Yields ''{2}'' (Yields ''{3}'' Stops))) = Raise CancelledError \<and>
   sent (snd (data_sender
          \<lparr>is_disconnected = (\<lambda>i. i = 1), outer_locked = (\<lambda>i. False), json_dumps = id\<rparr>
          (Some \<lparr>interrupt_requests = True, api_key = None\<rparr>)
          ''{1}'' (Yields ''{2}'' (Yields ''{3}'' Stops)))) = [''{1}'', ''{2}''] \<and>
   pulls (snd (data_sender
          \<lparr>is_disconnected = (\<lambda>i. i = 1), outer_locked = (\<lambda>i. False), json_dumps = id\<rparr>
          (Some \<lparr>interrupt_requests = True, api_key = None\<rparr>)
          ''{1}'' (Yields ''{2}'' (Yields ''{3}'' Stops)))) = 2 \<and>
   disconnect_checks (snd (data_sender
          \<lparr>is_disconnected = (\<lambda>i. i = 1), outer_locked = (\<lambda>i. False), json_dumps = id\<rparr>
          (Some \<lparr>interrupt_requests = True, api_key = None\<rparr>)
          ''{1}'' (Yields ''{2}'' (Yields ''{3}'' Stops)))) = 2"
  using disconnect_aborts_without_done
    [of "Some exit_stack_close" 1
        "iterator ''{1}'' (Yields ''{2}'' (Yields ''{3}'' Stops))"
        "\<lparr>is_disconnected = (\<lambda>i. i = 1), outer_locked = (\<lambda>i. False), json_dumps = id\<rparr>"
        "Some \<lparr>interrupt_requests = True, api_key = None\<rparr>"
        stream_init]
  by (simp add: data_sender_def iterator_def stream_init_def)

section \<open>The streaming publisher: cleanup\<close>

lemma exit_stack_close_closes:
  "gate_open s \<or> gate_closed s \<Longrightarrow> gate_closed (exit_stack_close s)"
  by (auto simp add: gate_open_def gate_closed_def exit_stack_close_def)

lemma publish_chunks_gate:
  "gate_open s \<or> gate_closed s \<Longrightarrow>
   gate_open (snd (publish_chunks request interrupt i it s)) \<or>
   gate_closed (snd (publish_chunks request interrupt i it s))"
proof (induction it arbitrary: i s)
  case (Yields c g)
  let ?s3 = "(send (json_dumps request c) (s\<lparr>pulls := Suc (pulls s)\<rparr>))
               \<lparr>disconnect_checks := Suc (disconnect_checks s)\<rparr>"
  have s3: "gate_open ?s3 \<or> gate_closed ?s3"
    using Yields.prems by (simp add: gate_open_def gate_closed_def send_def)
  have s4: "gate_open (send ''[DONE]'' ?s3) \<or> gate_closed (send ''[DONE]'' ?s3)"
    using Yields.prems by (simp add: gate_open_def gate_closed_def send_def)
  show ?case using s3 s4 Yields.IH[OF s3, of "Suc i"]
    by (simp add: Let_def send_def)
next
  case (ClosesExitStack g)
  have "gate_open (exit_stack_close s) \<or> gate_closed (exit_stack_close s)"
    using exit_stack_close_closes[OF ClosesExitStack.prems] by simp
  from ClosesExitStack.IH[OF this] show ?case by simp
next
  case Stops
  then show ?case by (simp add: gate_open_def gate_closed_def)
next
  case (Raises e)
  then show ?case by (simp add: gate_open_def gate_closed_def)
qed

lemma except_cancelled_gate:
  "gate_open (snd r) \<or> gate_closed (snd r) \<Longrightarrow>
   gate_open (snd (except_cancelled r)) \<or> gate_closed (snd (except_cancelled r))"
  by (cases r rule: except_cancelled.cases) (simp_all add: gate_open_def gate_closed_def)

text \<open>
  C3. In every streaming session, whatever the engine's stream does (runs to its
  end, or raises) and whatever the two checks answer (so on each of the three exit
  paths: iterator exhausted, client disconnected, interrupted on contention), the
  effect of the cleanup has happened exactly once when the publisher is done: the
  inner lock has been released once, the request no longer holds it, and the exit
  stack is empty. This holds although \<^verbatim>\<open>exit_stack.close()\<close> is called both at
  the tail of \<^verbatim>\<open>iterator()\<close> and in the publisher's \<^verbatim>\<open>finally\<close>.
\<close>

theorem cleanup_effect_exactly_once:
  "gate_releases (snd (data_sender request settings first_response iterator_or_completion)) = 1 \<and>
   exit_stack (snd (data_sender request settings first_response iterator_or_completion)) = [] \<and>
   \<not> inner_locked (snd (data_sender request settings first_response iterator_or_completion))"
proof -
  define r where
    "r = publish_chunks request (interrupt_enabled settings) 0
           (iterator first_response iterator_or_completion) stream_init"
  have "gate_open stream_init \<or> gate_closed stream_init"
    by (simp add: gate_open_def stream_init_def)
  then have 1: "gate_open (snd r) \<or> gate_closed (snd r)"
    unfolding r_def by (rule publish_chunks_gate)
  define tried where
    "tried = (case r of (Normal, s') \<Rightarrow> (Normal, send ''[DONE]'' s')
                      | (Raise e, s') \<Rightarrow> (Raise e, s'))"
  have 2: "gate_open (snd tried) \<or> gate_closed (snd tried)"
    using 1 unfolding tried_def
    by (cases r; cases "fst r") (auto simp add: gate_open_def gate_closed_def send_def)
  have 3: "gate_closed (exit_stack_close (snd (except_cancelled tried)))"
    by (rule exit_stack_close_closes) (rule except_cancelled_gate[OF 2])
  have "snd (data_sender request settings first_response iterator_or_completion) =
        exit_stack_close (snd (except_cancelled tried))"
    by (simp add: data_sender_def get_event_publisher_def Let_def tried_def r_def)
  with 3 show ?thesis by (simp add: gate_closed_def)
qed

text \<open>
  A session that runs to the end of the stream: both calls of
  \<^verbatim>\<open>exit_stack.close()\<close> happen, the release happens once.
\<close>

theorem cleanup_effect_exactly_once_witness:
  "gate_releases (snd (data_sender
      \<lparr>is_disconnected = (\<lambda>i. False), outer_locked = (\<lambda>i. False), json_dumps = id\<rparr>
      None ''{1}'' (Yields ''{2}'' Stops))) = 1 \<and>
   sent (snd (data_sender
      \<lparr>is_disconnected = (\<lambda>i. False), outer_locked = (\<lambda>i. False), json_dumps = id\<rparr>
      None ''{1}'' (Yields ''{2}'' Stops))) = [''{1}'', ''{2}'', ''[DONE]'']"
  using cleanup_effect_exactly_once
    [of "\<lparr>is_disconnected = (\<lambda>i. False), outer_locked = (\<lambda>i. False), json_dumps = id\<rparr>"
        None "''{1}''" "Yields ''{2}'' Stops"]
  by (simp add: data_sender_def get_event_publisher_def iterator_def stream_init_def
        interrupt_enabled_def send_def exit_stack_close_def)

section \<open>Authentication: who is let through, and on which routes\<close>

text \<open>
  C6, as the specification states it, exempts the introspection route from
  authentication. The route \<^verbatim>\<open>/v1/internal/model/info\<close> is declared with
  \<^verbatim>\<open>dependencies=[Depends(authenticate)]\<close> like every other route: with a key
  configured, a request without credentials does not reach \<^verbatim>\<open>info\<close>, it is
  answered with 401.
\<close>

theorem introspection_requires_authentication:
  "\<not> admitted InternalModelInfo \<lparr>interrupt_requests = False, api_key = Some ''secret''\<rparr> None \<and>
   authenticate \<lparr>interrupt_requests = False, api_key = Some ''secret''\<rparr> None =
     Inl (HTTPException 401)"
  by (simp add: admitted_def authenticate_def)

text \<open>
  C6, amended. When no API key is configured \<^verbatim>\<open>authenticate\<close> succeeds for every
  request. When a key is configured it succeeds exactly for the requests that carry
  bearer credentials equal to the key, and every other request fails with HTTP 401.
  Every route of the router, the introspection route included, admits a request
  exactly when \<^verbatim>\<open>authenticate\<close> succeeds for it.
\<close>

theorem authenticate_contract:
  "(api_key settings = None \<longrightarrow> authenticate settings authorization = Inr ReturnsTrue) \<and>
   (api_key settings = Some key \<longrightarrow>
      (returns (authenticate settings authorization) \<longleftrightarrow> authorization = Some key) \<and>
      (authorization \<noteq> Some key \<longrightarrow>
         authenticate settings authorization = Inl (HTTPException 401))) \<and>
   admitted r settings authorization = returns (authenticate settings authorization)"
proof (intro conjI impI)
  show "admitted r settings authorization = returns (authenticate settings authorization)"
    by (cases r) (simp_all add: admitted_def)
qed (auto simp add: authenticate_def split: option.splits)

theorem authenticate_contract_witness:
  "admitted Completions \<lparr>interrupt_requests = False, api_key = Some ''secret''\<rparr> (Some ''secret'') \<and>
   \<not> admitted InternalModelInfo \<lparr>interrupt_requests = False, api_key = Some ''secret''\<rparr>
       (Some ''guess'') \<and>
   admitted InternalModelInfo \<lparr>interrupt_requests = False, api_key = None\<rparr> None"
  using authenticate_contract
          [of "\<lparr>interrupt_requests = False, api_key = Some ''secret''\<rparr>" "Some ''secret''"
              "''secret''" Completions]
        authenticate_contract
          [of "\<lparr>interrupt_requests = False, api_key = Some ''secret''\<rparr>" "Some ''guess''"
              "''secret''" InternalModelInfo]
        authenticate_contract
          [of "\<lparr>interrupt_requests = False, api_key = None\<rparr>" None "''secret''"
              InternalModelInfo]
  by simp

section \<open>Embedding model selection\<close>

lemma find_setting_find:
  "find_setting request_model settings =
   find (\<lambda>m. embedding m \<and>
              (request_model = None \<or> request_model = Some (model m) \<or>
               request_model = model_alias m))
        settings"
  by (induction settings) auto

lemma find_filter: "find P (filter Q xs) = find (\<lambda>x. Q x \<and> P x) xs"
  by (induction xs) auto

text \<open>
  C5, as the specification states it, prefers an entry whose alias is the requested
  name over an entry that matches by model name, and so chooses the second of two
  embedding-capable entries when the requested name is the second entry's alias. The
  loop makes one pass and stops at the first entry that matches either way: here the
  first entry's model name is the second entry's alias, and the first entry is chosen.
\<close>

theorem embedding_alias_not_preferred:
  "create_embedding_setting (Some ''x'')
     [\<lparr>model = ''x'', model_alias = Some ''a'', embedding = True, is_hf_embedding_model = False\<rparr>,
      \<lparr>model = ''y'', model_alias = Some ''x'', embedding = True, is_hf_embedding_model = False\<rparr>]
   = Inr \<lparr>model = ''x'', model_alias = Some ''a'', embedding = True, is_hf_embedding_model = False\<rparr> \<and>
   spec_embedding_resolution (Some ''x'')
     [\<lparr>model = ''x'', model_alias = Some ''a'', embedding = True, is_hf_embedding_model = False\<rparr>,
      \<lparr>model = ''y'', model_alias = Some ''x'', embedding = True, is_hf_embedding_model = False\<rparr>]
   = Inr \<lparr>model = ''y'', model_alias = Some ''x'', embedding = True, is_hf_embedding_model = False\<rparr>"
  by (simp add: create_embedding_setting_def spec_embedding_resolution_def)

text \<open>
  C5, amended. The setting chosen for an embedding request is the first entry, in
  the order of the configured list, that is embedding-capable and, when the request
  names a model, has that name as its model name or as its alias (no preference
  between the two); when no entry qualifies the request fails with the
  \<open>ValueError\<close> of the handler. In particular: with no embedding-capable entry the
  request fails; with no model named and exactly one embedding-capable entry, that
  entry is chosen; and of two embedding-capable entries the second is chosen for a
  name that is its alias, provided the name is neither the model name nor the alias
  of the first.
\<close>

theorem embedding_setting_first_match:
  "create_embedding_setting request_model settings =
     (case find (\<lambda>m. embedding m \<and>
                   (request_model = None \<or> request_model = Some (model m) \<or>
                    request_model = model_alias m)) settings of
        None \<Rightarrow> Inl ValueError | Some m \<Rightarrow> Inr m) \<and>
   (filter embedding settings = [] \<longrightarrow>
      create_embedding_setting request_model settings = Inl ValueError) \<and>
   (request_model = None \<and> filter embedding settings = [e] \<longrightarrow>
      create_embedding_setting request_model settings = Inr e) \<and>
   (settings = [a, b] \<and> embedding a \<and> embedding b \<and> request_model = Some name \<and>
       model_alias b = Some name \<and> model a \<noteq> name \<and> model_alias a \<noteq> Some name \<longrightarrow>
      create_embedding_setting request_model settings = Inr b)"
proof (intro conjI impI)
  show "create_embedding_setting request_model settings =
     (case find (\<lambda>m. embedding m \<and>
                   (request_model = None \<or> request_model = Some (model m) \<or>
                    request_model = model_alias m)) settings of
        None \<Rightarrow> Inl ValueError | Some m \<Rightarrow> Inr m)"
    by (simp add: create_embedding_setting_def find_setting_find)
next
  assume "filter embedding settings = []"
  then have "\<forall>m \<in> set settings. \<not> embedding m" by (simp add: filter_empty_conv)
  then have "find_setting request_model settings = None"
    by (induction settings) auto
  then show "create_embedding_setting request_model settings = Inl ValueError"
    by (simp add: create_embedding_setting_def)
next
  assume a: "request_model = None \<and> filter embedding settings = [e]"
  have "find_setting None settings = find (\<lambda>m. True) (filter embedding settings)"
    by (simp add: find_setting_find find_filter)
  with a show "create_embedding_setting request_model settings = Inr e"
    by (simp add: create_embedding_setting_def)
next
  assume "settings = [a, b] \<and> embedding a \<and> embedding b \<and> request_model = Some name \<and>
       model_alias b = Some name \<and> model a \<noteq> name \<and> model_alias a \<noteq> Some name"
  then show "create_embedding_setting request_model settings = Inr b"
    by (auto simp add: create_embedding_setting_def)
qed

theorem embedding_setting_first_match_witness:
  "create_embedding_setting (Some ''e5'')
     [\<lparr>model = ''bge.gguf'', model_alias = Some ''bge'', embedding = True,
       is_hf_embedding_model = False\<rparr>,
      \<lparr>model = ''intfloat/e5'', model_alias = Some ''e5'', embedding = True,
       is_hf_embedding_model = True\<rparr>]
   = Inr \<lparr>model = ''intfloat/e5'', model_alias = Some ''e5'', embedding = True,
          is_hf_embedding_model = True\<rparr> \<and>
   create_embedding_setting None
     [\<lparr>model = ''chat.gguf'', model_alias = None, embedding = False,
       is_hf_embedding_model = False\<rparr>,
      \<lparr>model = ''bge.gguf'', model_alias = Some ''bge'', embedding = True,
       is_hf_embedding_model = False\<rparr>]
   = Inr \<lparr>model = ''bge.gguf'', model_alias = Some ''bge'', embedding = True,
          is_hf_embedding_model = False\<rparr> \<and>
   create_embedding_setting None
     [\<lparr>model = ''chat.gguf'', model_alias = None, embedding = False,
       is_hf_embedding_model = False\<rparr>]
   = Inl ValueError"
  using embedding_setting_first_match
          [of "Some ''e5''"
              "[\<lparr>model = ''bge.gguf'', model_alias = Some ''bge'', embedding = True,
                 is_hf_embedding_model = False\<rparr>,
                \<lparr>model = ''intfloat/e5'', model_alias = Some ''e5'', embedding = True,
                 is_hf_embedding_model = True\<rparr>]"
              "\<lparr>model = ''bge.gguf'', model_alias = Some ''bge'', embedding = True,
                is_hf_embedding_model = False\<rparr>"
              "\<lparr>model = ''bge.gguf'', model_alias = Some ''bge'', embedding = True,
                is_hf_embedding_model = False\<rparr>"
              "\<lparr>model = ''intfloat/e5'', model_alias = Some ''e5'', embedding = True,
                is_hf_embedding_model = True\<rparr>"
              "''e5''"]
        embedding_setting_first_match
          [of None
              "[\<lparr>model = ''chat.gguf'', model_alias = None, embedding = False,
                 is_hf_embedding_model = False\<rparr>,
                \<lparr>model = ''bge.gguf'', model_alias = Some ''bge'', embedding = True,
                 is_hf_embedding_model = False\<rparr>]"
              "\<lparr>model = ''bge.gguf'', model_alias = Some ''bge'', embedding = True,
                is_hf_embedding_model = False\<rparr>"]
        embedding_setting_first_match
          [of None
              "[\<lparr>model = ''chat.gguf'', model_alias = None, embedding = False,
                 is_hf_embedding_model = False\<rparr>]"]
  by simp

section \<open>Model info\<close>

text \<open>
  C8, as the specification states it, makes the introspection fail when no model has
  been loaded. \<^verbatim>\<open>info\<close> has no test for that; it reads the current model inside
  the loop over the configured models only. With no configured model the loop body
  never runs, and the handler returns \<^verbatim>\<open>None\<close> (a null response), not an error.
\<close>

theorem info_without_model_returns_null:
  "info [] (Some \<lparr>current_model = None\<rparr>) = Inr None"
  by simp

text \<open>
  C8, amended. With a model loaded, \<^verbatim>\<open>info\<close> answers for the first configured
  entry whose \<^verbatim>\<open>model\<close> is the path of the loaded model: the name is the entry's
  alias if it has one and its \<^verbatim>\<open>model\<close> otherwise, and the adapter is the loaded
  model's \<^verbatim>\<open>lora_path\<close>; when no configured entry has that path the answer is
  \<^verbatim>\<open>None\<close>. With no model loaded there is no dedicated error: the handler fails
  with the \<open>AttributeError\<close> of reading the missing model when at least one model
  is configured, and returns \<^verbatim>\<open>None\<close> when none is.
\<close>

theorem info_first_entry_with_current_path:
  "info settings (Some p) =
     (case current_model p of
        None \<Rightarrow> (if settings = [] then Inr None else Inl AttributeError)
      | Some cur \<Rightarrow>
         (case find (\<lambda>m. model m = model_path cur) settings of
            None \<Rightarrow> Inr None
          | Some m \<Rightarrow>
              Inr (Some \<lparr>model_name = (case model_alias m of Some a \<Rightarrow> a | None \<Rightarrow> model m),
                         lora_names = lora_path cur\<rparr>)))"
  by (induction settings) (auto split: option.splits)

theorem info_first_entry_with_current_path_witness:
  "info [\<lparr>model = ''a.gguf'', model_alias = None, embedding = False,
          is_hf_embedding_model = False\<rparr>,
         \<lparr>model = ''b.gguf'', model_alias = Some ''b'', embedding = False,
          is_hf_embedding_model = False\<rparr>]
        (Some \<lparr>current_model = Some \<lparr>model_path = ''b.gguf'', lora_path = Some ''b.lora''\<rparr>\<rparr>)
   = Inr (Some \<lparr>model_name = ''b'', lora_names = Some ''b.lora''\<rparr>) \<and>
   info [\<lparr>model = ''a.gguf'', model_alias = None, embedding = False,
          is_hf_embedding_model = False\<rparr>]
        (Some \<lparr>current_model = None\<rparr>)
   = Inl AttributeError"
  using info_first_entry_with_current_path
          [of "[\<lparr>model = ''a.gguf'', model_alias = None, embedding = False,
                 is_hf_embedding_model = False\<rparr>,
                \<lparr>model = ''b.gguf'', model_alias = Some ''b'', embedding = False,
                 is_hf_embedding_model = False\<rparr>]"
              "\<lparr>current_model = Some \<lparr>model_path = ''b.gguf'', lora_path = Some ''b.lora''\<rparr>\<rparr>"]
        info_first_entry_with_current_path
          [of "[\<lparr>model = ''a.gguf'', model_alias = None, embedding = False,
                 is_hf_embedding_model = False\<rparr>]"
              "\<lparr>current_model = None\<rparr>"]
  by simp

section \<open>Request shaping: what reaches the engine\<close>

lemma set_logit_bias_frame:
  "k \<noteq> ''logit_bias'' \<Longrightarrow> set_logit_bias llama body kwargs k = kwargs k"
  by (simp add: set_logit_bias_def split: option.splits)

lemma set_grammar_frame:
  "set_grammar env body kwargs = Inr kwargs' \<Longrightarrow> k \<noteq> ''grammar'' \<Longrightarrow> kwargs' k = kwargs k"
  by (auto simp add: set_grammar_def split: option.splits sum.splits)

lemma set_min_tokens_frame:
  "set_min_tokens llama body kwargs = Inr kwargs' \<Longrightarrow> k \<noteq> ''logits_processor'' \<Longrightarrow>
   kwargs' k = kwargs k"
  by (auto simp add: set_min_tokens_def Let_def split: option.splits sum.splits if_splits)

lemma shape_kwargs_frame:
  assumes "shape_kwargs env llama body kwargs = Inr kwargs'"
    and "k \<noteq> ''logit_bias''" and "k \<noteq> ''grammar''" and "k \<noteq> ''logits_processor''"
  shows "kwargs' k = kwargs k"
proof -
  from assms(1) obtain kw where
    g: "set_grammar env body (set_logit_bias llama body kwargs) = Inr kw" and
    m: "set_min_tokens llama body kw = Inr kwargs'"
    by (auto simp add: shape_kwargs_def split: sum.splits)
  have "kwargs' k = kw k" using set_min_tokens_frame[OF m assms(4)] .
  also have "kw k = set_logit_bias llama body kwargs k" using set_grammar_frame[OF g assms(3)] .
  also have "\<dots> = kwargs k" using set_logit_bias_frame[OF assms(2)] .
  finally show ?thesis .
qed

lemma shape_kwargs_prompt:
  assumes "shape_kwargs env llama body kwargs = Inr kwargs'"
  shows "kwargs' ''prompt'' = kwargs ''prompt''"
  using shape_kwargs_frame[OF assms, of "''prompt''"] by simp

lemma completion_model_prompt:
  "completion_model path (body\<lparr>prompt := p\<rparr>) = completion_model path body"
  by (simp add: completion_model_def)

lemma create_completion_cases:
  assumes "create_completion proxy path body = Inr kwargs"
  obtains env p llama where "proxy = Some env" and "single_prompt (prompt body) = Inr p"
    and "llama_proxy_call env (completion_model path body) = Inr llama"
    and "shape_kwargs env llama (body\<lparr>prompt := p\<rparr>)
           (model_dump exclude_completion (completion_fields (body\<lparr>prompt := p\<rparr>))) = Inr kwargs"
  using assms
  by (auto simp add: create_completion_def Let_def completion_model_prompt
           split: option.splits sum.splits)

lemma model_dump_apply:
  "model_dump exclude d k = (if k \<in> exclude then None else d k)"
  by (simp add: model_dump_def restrict_map_def)

lemma completion_fields_prompt_update:
  "completion_fields (body\<lparr>prompt := p\<rparr>) = (completion_fields body)(''prompt'' \<mapsto> prompt_dump p)"
  by (simp add: completion_fields_def chat_fields_def)

lemma create_completion_prompt:
  assumes "create_completion proxy path body = Inr kwargs"
  shows "\<exists>p. single_prompt (prompt body) = Inr p \<and> kwargs ''prompt'' = Some (prompt_dump p)"
proof -
  from assms obtain env p llama where
    p: "single_prompt (prompt body) = Inr p" and
    sh: "shape_kwargs env llama (body\<lparr>prompt := p\<rparr>)
           (model_dump exclude_completion (completion_fields (body\<lparr>prompt := p\<rparr>))) = Inr kwargs"
    by (rule create_completion_cases)
  have "kwargs ''prompt'' =
        model_dump exclude_completion (completion_fields (body\<lparr>prompt := p\<rparr>)) ''prompt''"
    by (rule shape_kwargs_prompt[OF sh])
  also have "\<dots> = Some (prompt_dump p)"
    by (simp add: model_dump_apply completion_fields_prompt_update exclude_completion_def)
  finally show ?thesis using p by blast
qed

lemma returns_Inr: "returns r \<Longrightarrow> \<exists>v. r = Inr v"
  by (cases r) simp_all

lemma py_extend_returns: "returns (py_extend v processors) = extendable (Some v)"
  by (cases v) simp_all

lemma set_grammar_returns:
  "returns (set_grammar env body kwargs) \<longleftrightarrow>
   (\<forall>g. grammar body = Some g \<longrightarrow> returns (from_string env g))"
  by (cases "grammar body") (auto simp add: set_grammar_def split: sum.splits)

lemma set_min_tokens_returns:
  "returns (set_min_tokens llama body kwargs) \<longleftrightarrow>
   (0 < min_tokens body \<longrightarrow> extendable (kwargs ''logits_processor''))"
proof (cases "kwargs ''logits_processor''")
  case None
  then show ?thesis by (simp add: set_min_tokens_def)
next
  case (Some v)
  then show ?thesis
    using py_extend_returns[of v "[MinTokensLogitsProcessor (min_tokens body) (token_eos llama)]"]
    by (cases "py_extend v [MinTokensLogitsProcessor (min_tokens body) (token_eos llama)]")
       (simp_all add: set_min_tokens_def)
qed

lemma shape_kwargs_returns:
  "returns (shape_kwargs env llama body kwargs) \<longleftrightarrow>
   (\<forall>g. grammar body = Some g \<longrightarrow> returns (from_string env g)) \<and>
   (0 < min_tokens body \<longrightarrow> extendable (kwargs ''logits_processor''))"
proof (cases "set_grammar env body (set_logit_bias llama body kwargs)")
  case (Inl e)
  then have "\<not> returns (set_grammar env body (set_logit_bias llama body kwargs))" by simp
  then have n: "\<not> (\<forall>g. grammar body = Some g \<longrightarrow> returns (from_string env g))"
    by (simp add: set_grammar_returns)
  have "\<not> returns (shape_kwargs env llama body kwargs)"
    using Inl by (simp add: shape_kwargs_def)
  with n show ?thesis by blast
next
  case (Inr kw)
  then have "returns (set_grammar env body (set_logit_bias llama body kwargs))" by simp
  then have g: "\<forall>g. grammar body = Some g \<longrightarrow> returns (from_string env g)"
    by (simp add: set_grammar_returns)
  have "kw ''logits_processor'' = kwargs ''logits_processor''"
    using set_grammar_frame[OF Inr, of "''logits_processor''"]
    by (simp add: set_logit_bias_frame)
  with Inr g show ?thesis
    by (simp add: shape_kwargs_def set_min_tokens_returns)
qed

lemma create_chat_completion_returns:
  "returns (create_chat_completion proxy cbody) \<longleftrightarrow>
   (\<exists>env llama. proxy = Some env \<and>
      llama_proxy_call env (chat_body.model cbody) = Inr llama \<and>
      (\<forall>g. grammar cbody = Some g \<longrightarrow> returns (from_string env g)) \<and>
      (0 < min_tokens cbody \<longrightarrow> extendable (chat_fields cbody ''logits_processor'')))"
proof (cases proxy)
  case None
  then show ?thesis by (simp add: create_chat_completion_def)
next
  case (Some env)
  have d: "model_dump exclude_chat (chat_fields cbody) ''logits_processor'' =
           chat_fields cbody ''logits_processor''"
    by (simp add: model_dump_apply exclude_chat_def)
  show ?thesis
  proof (cases "llama_proxy_call env (chat_body.model cbody)")
    case (Inl e)
    with Some show ?thesis by (simp add: create_chat_completion_def)
  next
    case (Inr llama)
    with Some show ?thesis
      by (simp add: create_chat_completion_def shape_kwargs_returns d)
  qed
qed

lemma single_prompt_returns:
  "returns (single_prompt p) \<longleftrightarrow> (\<forall>xs. p = PromptList xs \<longrightarrow> length xs \<le> 1)"
  by (cases p) simp_all

lemma completion_fields_logits_processor:
  "completion_fields (body\<lparr>prompt := p\<rparr>) ''logits_processor'' =
   completion_fields body ''logits_processor''"
  by (simp add: completion_fields_prompt_update)

lemma create_completion_returns:
  "returns (create_completion proxy path body) \<longleftrightarrow>
   (\<exists>env llama. proxy = Some env \<and>
      (\<forall>xs. prompt body = PromptList xs \<longrightarrow> length xs \<le> 1) \<and>
      llama_proxy_call env (completion_model path body) = Inr llama \<and>
      (\<forall>g. grammar body = Some g \<longrightarrow> returns (from_string env g)) \<and>
      (0 < min_tokens body \<longrightarrow> extendable (completion_fields body ''logits_processor'')))"
proof (cases proxy)
  case None
  then show ?thesis by (simp add: create_completion_def)
next
  case (Some env)
  show ?thesis
  proof (cases "single_prompt (prompt body)")
    case (Inl e)
    then have "\<not> returns (single_prompt (prompt body))" by simp
    then have n: "\<not> (\<forall>xs. prompt body = PromptList xs \<longrightarrow> length xs \<le> 1)"
      by (simp add: single_prompt_returns)
    have "\<not> returns (create_completion proxy path body)"
      using Some Inl by (simp add: create_completion_def)
    with n show ?thesis by blast
  next
    case (Inr p)
    then have "returns (single_prompt (prompt body))" by simp
    then have sp: "\<forall>xs. prompt body = PromptList xs \<longrightarrow> length xs \<le> 1"
      by (simp add: single_prompt_returns)
    have d: "model_dump exclude_completion (completion_fields (body\<lparr>prompt := p\<rparr>))
               ''logits_processor'' = completion_fields body ''logits_processor''"
      by (simp add: model_dump_apply exclude_completion_def completion_fields_logits_processor)
    show ?thesis
    proof (cases "llama_proxy_call env (completion_model path body)")
      case (Inl e)
      with Some Inr show ?thesis
        by (simp add: create_completion_def Let_def completion_model_prompt)
    next
      case llama: (Inr llama)
      with Some Inr sp show ?thesis
        by (simp add: create_completion_def Let_def completion_model_prompt
              shape_kwargs_returns d)
    qed
  qed
qed

lemma create_completion_list_as_string:
  assumes "prompt body = PromptList xs" and "length xs \<le> 1"
  shows "create_completion proxy path body =
         create_completion proxy path
           (body\<lparr>prompt := PromptStr (case xs of x # rest \<Rightarrow> x | [] \<Rightarrow> [])\<rparr>)"
  using assms by (cases proxy; cases xs) (simp_all add: create_completion_def Let_def)

lemma create_completion_string_returns:
  "returns (create_completion proxy path (body\<lparr>prompt := PromptStr s\<rparr>)) \<longleftrightarrow>
   (\<exists>env llama. proxy = Some env \<and>
      llama_proxy_call env (completion_model path body) = Inr llama \<and>
      (\<forall>g. grammar body = Some g \<longrightarrow> returns (from_string env g)) \<and>
      (0 < min_tokens body \<longrightarrow> extendable (completion_fields body ''logits_processor'')))"
  by (simp add: create_completion_returns completion_model_prompt
        completion_fields_logits_processor)

lemma create_completion_list_returns:
  assumes "prompt body = PromptList xs"
  shows "returns (create_completion proxy path body) \<longleftrightarrow>
         length xs \<le> 1 \<and>
         returns (create_completion proxy path (body\<lparr>prompt := PromptStr s\<rparr>))"
proof -
  have a: "returns (create_completion proxy path body) \<longleftrightarrow>
     (\<exists>env llama. proxy = Some env \<and> length xs \<le> 1 \<and>
        llama_proxy_call env (completion_model path body) = Inr llama \<and>
        (\<forall>g. grammar body = Some g \<longrightarrow> returns (from_string env g)) \<and>
        (0 < min_tokens body \<longrightarrow> extendable (completion_fields body ''logits_processor'')))"
    using assms by (simp add: create_completion_returns)
  show ?thesis unfolding a create_completion_string_returns by blast
qed

text \<open>
  C10. A text-completion request whose prompt is a list reaches the engine only when
  the list has at most one element: for a longer list the request does not return
  keyword arguments, and once the proxy is there it ends with the failed assertion. A
  list of at most one element passes the assertion and is handled exactly as the
  request with the string in its place, the element of a one-element list and the
  empty string for the empty list: the two requests have the same result, so the list
  request reaches the engine exactly when the string request does, and then that
  string is the prompt among the keyword arguments of the engine call.
\<close>

theorem prompt_list_at_most_one:
  "(prompt body = PromptList xs \<and> 1 < length xs \<longrightarrow>
      \<not> returns (create_completion proxy path body) \<and>
      create_completion (Some env) path body = Inl AssertionError) \<and>
   (prompt body = PromptList [x] \<longrightarrow>
      create_completion proxy path body =
      create_completion proxy path (body\<lparr>prompt := PromptStr x\<rparr>)) \<and>
   (prompt body = PromptList [] \<longrightarrow>
      create_completion proxy path body =
      create_completion proxy path (body\<lparr>prompt := PromptStr []\<rparr>)) \<and>
   (prompt body = PromptList xs \<longrightarrow>
      (returns (create_completion proxy path body) \<longleftrightarrow>
       length xs \<le> 1 \<and>
       returns (create_completion proxy path (body\<lparr>prompt := PromptStr s\<rparr>)))) \<and>
   (prompt body = PromptStr s \<and> returns (create_completion proxy path body) \<longrightarrow>
      passed (create_completion proxy path body) ''prompt'' = Some (PStr s)) \<and>
   (prompt body = PromptList [x] \<and> returns (create_completion proxy path body) \<longrightarrow>
      passed (create_completion proxy path body) ''prompt'' = Some (PStr x)) \<and>
   (prompt body = PromptList [] \<and> returns (create_completion proxy path body) \<longrightarrow>
      passed (create_completion proxy path body) ''prompt'' = Some (PStr []))"
proof -
  have 1: "prompt body = PromptList xs \<and> 1 < length xs \<longrightarrow>
      \<not> returns (create_completion proxy path body) \<and>
      create_completion (Some env) path body = Inl AssertionError"
  proof
    assume a: "prompt body = PromptList xs \<and> 1 < length xs"
    then have "create_completion (Some env) path body = Inl AssertionError"
      by (simp add: create_completion_def)
    moreover from a have "\<not> returns (create_completion proxy path body)"
      by (cases proxy) (simp_all add: create_completion_def)
    ultimately show "\<not> returns (create_completion proxy path body) \<and>
      create_completion (Some env) path body = Inl AssertionError" by simp
  qed
  have 2: "prompt body = PromptList [x] \<longrightarrow>
      create_completion proxy path body =
      create_completion proxy path (body\<lparr>prompt := PromptStr x\<rparr>)"
    using create_completion_list_as_string[of body "[x]" proxy path] by simp
  have 3: "prompt body = PromptList [] \<longrightarrow>
      create_completion proxy path body =
      create_completion proxy path (body\<lparr>prompt := PromptStr []\<rparr>)"
    using create_completion_list_as_string[of body "[]" proxy path] by simp
  have 4: "prompt body = PromptList xs \<longrightarrow>
      (returns (create_completion proxy path body) \<longleftrightarrow>
       length xs \<le> 1 \<and>
       returns (create_completion proxy path (body\<lparr>prompt := PromptStr s\<rparr>)))"
    using create_completion_list_returns[of body xs proxy path s] by blast
  have 5: "prompt body = PromptStr s \<and> returns (create_completion proxy path body) \<longrightarrow>
      passed (create_completion proxy path body) ''prompt'' = Some (PStr s)"
  proof
    assume a: "prompt body = PromptStr s \<and> returns (create_completion proxy path body)"
    then obtain kwargs where k: "create_completion proxy path body = Inr kwargs"
      by (auto dest: returns_Inr)
    from create_completion_prompt[OF k] a k
    show "passed (create_completion proxy path body) ''prompt'' = Some (PStr s)"
      by auto
  qed
  have 6: "prompt body = PromptList [x] \<and> returns (create_completion proxy path body) \<longrightarrow>
      passed (create_completion proxy path body) ''prompt'' = Some (PStr x)"
  proof
    assume a: "prompt body = PromptList [x] \<and> returns (create_completion proxy path body)"
    then obtain kwargs where k: "create_completion proxy path body = Inr kwargs"
      by (auto dest: returns_Inr)
    from create_completion_prompt[OF k] a k
    show "passed (create_completion proxy path body) ''prompt'' = Some (PStr x)"
      by auto
  qed
  have 7: "prompt body = PromptList [] \<and> returns (create_completion proxy path body) \<longrightarrow>
      passed (create_completion proxy path body) ''prompt'' = Some (PStr [])"
  proof
    assume a: "prompt body = PromptList [] \<and> returns (create_completion proxy path body)"
    then obtain kwargs where k: "create_completion proxy path body = Inr kwargs"
      by (auto dest: returns_Inr)
    from create_completion_prompt[OF k] a k
    show "passed (create_completion proxy path body) ''prompt'' = Some (PStr [])"
      by auto
  qed
  show ?thesis using 1 2 3 4 5 6 7 by (intro conjI)
qed

theorem prompt_list_at_most_one_witness:
  "returns (create_completion
     (Some \<lparr>llama_proxy_call = (\<lambda>m. Inr \<lparr>tokenize = (\<lambda>b add_bos special. []), token_eos = 2\<rparr>),
            from_string = (\<lambda>g. Inr (LlamaGrammar g))\<rparr>)
     ''/v1/completions''
     \<lparr>chat_body.model = None, logit_bias = None, logit_bias_type = None, grammar = None,
      min_tokens = 0, other_fields = [], prompt = PromptList []\<rparr>) \<and>
   passed (create_completion
     (Some \<lparr>llama_proxy_call = (\<lambda>m. Inr \<lparr>tokenize = (\<lambda>b add_bos special. []), token_eos = 2\<rparr>),
            from_string = (\<lambda>g. Inr (LlamaGrammar g))\<rparr>)
     ''/v1/completions''
     \<lparr>chat_body.model = None, logit_bias = None, logit_bias_type = None, grammar = None,
      min_tokens = 0, other_fields = [], prompt = PromptList []\<rparr>) ''prompt''
     = Some (PStr []) \<and>
   returns (create_completion
     (Some \<lparr>llama_proxy_call = (\<lambda>m. Inr \<lparr>tokenize = (\<lambda>b add_bos special. []), token_eos = 2\<rparr>),
            from_string = (\<lambda>g. Inr (LlamaGrammar g))\<rparr>)
     ''/v1/completions''
     \<lparr>chat_body.model = None, logit_bias = None, logit_bias_type = None, grammar = None,
      min_tokens = 0, other_fields = [], prompt = PromptList [''Once'']\<rparr>) \<and>
   passed (create_completion
     (Some \<lparr>llama_proxy_call = (\<lambda>m. Inr \<lparr>tokenize = (\<lambda>b add_bos special. []), token_eos = 2\<rparr>),
            from_string = (\<lambda>g. Inr (LlamaGrammar g))\<rparr>)
     ''/v1/completions''
     \<lparr>chat_body.model = None, logit_bias = None, logit_bias_type = None, grammar = None,
      min_tokens = 0, other_fields = [], prompt = PromptList [''Once'']\<rparr>) ''prompt''
     = Some (PStr ''Once'') \<and>
   create_completion
     (Some \<lparr>llama_proxy_call = (\<lambda>m. Inr \<lparr>tokenize = (\<lambda>b add_bos special. []), token_eos = 2\<rparr>),
            from_string = (\<lambda>g. Inr (LlamaGrammar g))\<rparr>)
     ''/v1/completions''
     \<lparr>chat_body.model = None, logit_bias = None, logit_bias_type = None, grammar = None,
      min_tokens = 0, other_fields = [], prompt = PromptList [''Once'', ''Twice'']\<rparr>
     = Inl AssertionError"
proof -
  let ?E = "\<lparr>llama_proxy_call = (\<lambda>m. Inr \<lparr>tokenize = (\<lambda>b add_bos special. []), token_eos = 2\<rparr>),
             from_string = (\<lambda>g. Inr (LlamaGrammar g))\<rparr>"
  let ?P = "''/v1/completions''"
  let ?B0 = "\<lparr>chat_body.model = None, logit_bias = None, logit_bias_type = None, grammar = None,
              min_tokens = 0, other_fields = [], prompt = PromptList []\<rparr>"
  let ?B1 = "\<lparr>chat_body.model = None, logit_bias = None, logit_bias_type = None, grammar = None,
              min_tokens = 0, other_fields = [], prompt = PromptList [''Once'']\<rparr>"
  let ?B2 = "\<lparr>chat_body.model = None, logit_bias = None, logit_bias_type = None, grammar = None,
              min_tokens = 0, other_fields = [], prompt = PromptList [''Once'', ''Twice'']\<rparr>"
  have s0: "length ([] :: string list) \<le> 1 \<and>
            returns (create_completion (Some ?E) ?P (?B0\<lparr>prompt := PromptStr []\<rparr>))"
    by (simp add: create_completion_def completion_model_def shape_kwargs_def set_grammar_def
          set_logit_bias_def set_min_tokens_def)
  have s1: "length [''Once''] \<le> 1 \<and>
            returns (create_completion (Some ?E) ?P (?B1\<lparr>prompt := PromptStr ''Once''\<rparr>))"
    by (simp add: create_completion_def completion_model_def shape_kwargs_def set_grammar_def
          set_logit_bias_def set_min_tokens_def)
  have p0: "prompt ?B0 = PromptList []" by simp
  have p1: "prompt ?B1 = PromptList [''Once'']" by simp
  have p2: "prompt ?B2 = PromptList [''Once'', ''Twice''] \<and> 1 < length [''Once'', ''Twice'']"
    by simp
  note th0 = prompt_list_at_most_one[of ?B0 "[]" "Some ?E" ?P ?E "''Once''" "[]"]
  note th1 = prompt_list_at_most_one[of ?B1 "[''Once'']" "Some ?E" ?P ?E "''Once''" "''Once''"]
  note th2 = prompt_list_at_most_one
               [of ?B2 "[''Once'', ''Twice'']" "Some ?E" ?P ?E "''Once''" "[]"]
  note r0 = th0[THEN conjunct2, THEN conjunct2, THEN conjunct2, THEN conjunct1, THEN mp, OF p0,
                THEN iffD2, OF s0]
  note r1 = th1[THEN conjunct2, THEN conjunct2, THEN conjunct2, THEN conjunct1, THEN mp, OF p1,
                THEN iffD2, OF s1]
  note v0 = th0[THEN conjunct2, THEN conjunct2, THEN conjunct2, THEN conjunct2, THEN conjunct2,
                THEN conjunct2, THEN mp, OF conjI, OF p0 r0]
  note v1 = th1[THEN conjunct2, THEN conjunct2, THEN conjunct2, THEN conjunct2, THEN conjunct2,
                THEN conjunct1, THEN mp, OF conjI, OF p1 r1]
  note e2 = th2[THEN conjunct1, THEN mp, OF p2, THEN conjunct2]
  show ?thesis using r0 v0 r1 v1 e2 by (intro conjI)
qed

section \<open>Request shaping: the logit bias\<close>

lemma fold_update_rev:
  "map_of (fold (\<lambda>input_id. AList.update (f input_id) v) ids acc) =
   map_of acc ++ map_of (rev (map (\<lambda>input_id. (f input_id, v)) ids))"
  by (induction ids arbitrary: acc)
     (auto simp add: update_conv' fun_eq_iff map_add_def split: option.splits)

lemma bias_fold:
  "map_of (fold (\<lambda>(token, score) to_bias.
             fold (\<lambda>input_id. AList.update (str_int input_id) score)
                  (tokenize llama (encode_utf8 token) False True) to_bias) bias acc) =
   map_of acc ++ map_of (rev (bias_assignments llama bias))"
proof (induction bias arbitrary: acc)
  case Nil
  show ?case by (simp add: bias_assignments_def)
next
  case (Cons p bias)
  obtain token score where p: "p = (token, score)" by (cases p)
  show ?case
    by (simp add: p Cons.IH fold_update_rev bias_assignments_def)
qed

lemma bias_lookup:
  "map_of (logit_bias_tokens_to_input_ids llama bias) = map_of (rev (bias_assignments llama bias))"
  by (simp add: logit_bias_tokens_to_input_ids_def bias_fold)

lemma map_of_agreeing:
  assumes "(k, v) \<in> set ps" and "\<forall>a \<in> set ps. fst a = k \<longrightarrow> snd a = v"
  shows "map_of ps k = Some v"
proof -
  from assms(1) obtain v' where v': "map_of ps k = Some v'"
    using weak_map_of_SomeI by fastforce
  then have "(k, v') \<in> set ps" by (rule map_of_SomeD)
  with assms(2) have "v' = v" by auto
  with v' show ?thesis by simp
qed

lemma bias_assignments_member:
  assumes "(token, score) \<in> set bias"
    and "input_id \<in> set (tokenize llama (encode_utf8 token) False True)"
  shows "(str_int input_id, score) \<in> set (bias_assignments llama bias)"
  using assms by (force simp add: bias_assignments_def)

lemma shape_kwargs_logit_bias:
  assumes "shape_kwargs env llama body kwargs = Inr kwargs'"
    and "logit_bias body = Some bias"
  shows "kwargs' ''logit_bias'' =
         Some (bias_dict (if logit_bias_type body = Some ''tokens''
                          then logit_bias_tokens_to_input_ids llama bias else bias))"
proof -
  from assms(1) obtain kw where
    g: "set_grammar env body (set_logit_bias llama body kwargs) = Inr kw" and
    m: "set_min_tokens llama body kw = Inr kwargs'"
    by (auto simp add: shape_kwargs_def split: sum.splits)
  have "kwargs' ''logit_bias'' = kw ''logit_bias''"
    using set_min_tokens_frame[OF m, of "''logit_bias''"] by simp
  also have "\<dots> = set_logit_bias llama body kwargs ''logit_bias''"
    using set_grammar_frame[OF g, of "''logit_bias''"] by simp
  also have "\<dots> = Some (bias_dict (if logit_bias_type body = Some ''tokens''
                          then logit_bias_tokens_to_input_ids llama bias else bias))"
    using assms(2) by (simp add: set_logit_bias_def)
  finally show ?thesis .
qed

text \<open>
  C7, as the specification states it, maps every token id that a key's tokenisation
  produces to that key's score. Two keys can produce the same token id; the later
  assignment then replaces the earlier one. Here the key \<^verbatim>\<open>ab\<close> with score 1
  produces the ids 1 and 2, the key \<^verbatim>\<open>a\<close> with score -1 produces the id 1, and
  the id 1 ends with the score -1, which is not the score of \<^verbatim>\<open>ab\<close>.
\<close>

theorem logit_bias_shared_token_takes_later_score:
  "tokenize \<lparr>tokenize = (\<lambda>b add_bos special.
                           if b = ''ab'' then [1, 2] else if b = ''a'' then [1] else []),
             token_eos = 0\<rparr> (encode_utf8 ''ab'') False True = [1, 2] \<and>
   logit_bias_tokens_to_input_ids
     \<lparr>tokenize = (\<lambda>b add_bos special.
                    if b = ''ab'' then [1, 2] else if b = ''a'' then [1] else []),
      token_eos = 0\<rparr>
     [(''ab'', 1), (''a'', - 1)] = [(''1'', - 1), (''2'', 1)]"
  by (simp add: logit_bias_tokens_to_input_ids_def encode_utf8_def str_int_def str_nat.simps
        digit_def)

text \<open>
  C7, amended. The converted map is the result of the assignments
  \<^verbatim>\<open>to_bias[str(id)] = score\<close>, made for the keys in the order of the request's map
  and, for each key, for the token ids of its tokenisation (the key UTF-8 encoded,
  without BOS, with special tokens) in their order: a name is mapped to the score of
  the last assignment to it. So a token id of a key carries that key's score whenever
  no assignment gives the id another score; an id that several keys produce carries
  the score of the last of them. In both handlers, for a request with a logit bias,
  the engine receives the converted map under \<^verbatim>\<open>logit_bias\<close> when
  \<^verbatim>\<open>logit_bias_type\<close> is \<^verbatim>\<open>"tokens"\<close>, and the request's own map, unchanged,
  otherwise.
\<close>

theorem logit_bias_assignments_in_order:
  "map_of (logit_bias_tokens_to_input_ids llama bias) =
     map_of (rev (bias_assignments llama bias)) \<and>
   ((token, score) \<in> set bias \<and>
    input_id \<in> set (tokenize llama (encode_utf8 token) False True) \<and>
    (\<forall>a \<in> set (bias_assignments llama bias). fst a = str_int input_id \<longrightarrow> snd a = score) \<longrightarrow>
      map_of (logit_bias_tokens_to_input_ids llama bias) (str_int input_id) = Some score) \<and>
   (returns (create_completion (Some env) path body) \<and> logit_bias body = Some bias \<and>
    llama_proxy_call env (completion_model path body) = Inr llama \<longrightarrow>
      passed (create_completion (Some env) path body) ''logit_bias'' =
        (if logit_bias_type body = Some ''tokens''
         then Some (bias_dict (logit_bias_tokens_to_input_ids llama bias))
         else completion_fields body ''logit_bias'')) \<and>
   (returns (create_chat_completion (Some env) cbody) \<and> logit_bias cbody = Some bias \<and>
    llama_proxy_call env (chat_body.model cbody) = Inr llama \<longrightarrow>
      passed (create_chat_completion (Some env) cbody) ''logit_bias'' =
        (if logit_bias_type cbody = Some ''tokens''
         then Some (bias_dict (logit_bias_tokens_to_input_ids llama bias))
         else chat_fields cbody ''logit_bias''))"
proof (intro conjI impI)
  show "map_of (logit_bias_tokens_to_input_ids llama bias) =
     map_of (rev (bias_assignments llama bias))"
    by (rule bias_lookup)
next
  assume a: "(token, score) \<in> set bias \<and>
    input_id \<in> set (tokenize llama (encode_utf8 token) False True) \<and>
    (\<forall>a \<in> set (bias_assignments llama bias). fst a = str_int input_id \<longrightarrow> snd a = score)"
  then have "(str_int input_id, score) \<in> set (rev (bias_assignments llama bias))"
    using bias_assignments_member[of token score bias input_id llama] by simp
  moreover from a have
    "\<forall>a \<in> set (rev (bias_assignments llama bias)). fst a = str_int input_id \<longrightarrow> snd a = score"
    by simp
  ultimately show "map_of (logit_bias_tokens_to_input_ids llama bias) (str_int input_id) = Some score"
    unfolding bias_lookup by (rule map_of_agreeing)
next
  assume a: "returns (create_completion (Some env) path body) \<and> logit_bias body = Some bias \<and>
    llama_proxy_call env (completion_model path body) = Inr llama"
  then obtain kwargs where r: "create_completion (Some env) path body = Inr kwargs"
    by (auto dest: returns_Inr)
  then obtain env' p llama' where e: "Some env = Some env'"
    and l: "llama_proxy_call env' (completion_model path body) = Inr llama'"
    and sh: "shape_kwargs env' llama' (body\<lparr>prompt := p\<rparr>)
           (model_dump exclude_completion (completion_fields (body\<lparr>prompt := p\<rparr>))) = Inr kwargs"
    by (auto elim: create_completion_cases)
  from e l a have ll: "llama' = llama" by simp
  have "logit_bias (body\<lparr>prompt := p\<rparr>) = Some bias" using a by simp
  from shape_kwargs_logit_bias[OF sh this] ll a
  show "passed (create_completion (Some env) path body) ''logit_bias'' =
        (if logit_bias_type body = Some ''tokens''
         then Some (bias_dict (logit_bias_tokens_to_input_ids llama bias))
         else completion_fields body ''logit_bias'')"
    by (simp add: r completion_fields_def chat_fields_def)
next
  assume a: "returns (create_chat_completion (Some env) cbody) \<and> logit_bias cbody = Some bias \<and>
    llama_proxy_call env (chat_body.model cbody) = Inr llama"
  then obtain ckwargs where r: "create_chat_completion (Some env) cbody = Inr ckwargs"
    by (auto dest: returns_Inr)
  with a have sh:
    "shape_kwargs env llama cbody (model_dump exclude_chat (chat_fields cbody)) = Inr ckwargs"
    by (auto simp add: create_chat_completion_def)
  from shape_kwargs_logit_bias[OF sh] a
  show "passed (create_chat_completion (Some env) cbody) ''logit_bias'' =
        (if logit_bias_type cbody = Some ''tokens''
         then Some (bias_dict (logit_bias_tokens_to_input_ids llama bias))
         else chat_fields cbody ''logit_bias'')"
    by (simp add: r chat_fields_def)
qed

theorem logit_bias_assignments_in_order_witness:
  "map_of (logit_bias_tokens_to_input_ids
     \<lparr>tokenize = (\<lambda>b add_bos special.
                    if b = ''ab'' then [1, 2] else if b = ''a'' then [1] else []),
      token_eos = 0\<rparr>
     [(''ab'', 1), (''a'', - 1)]) ''2'' = Some 1 \<and>
   passed (create_chat_completion
     (Some \<lparr>llama_proxy_call =
              (\<lambda>m. Inr \<lparr>tokenize = (\<lambda>b add_bos special.
                                       if b = ''ab'' then [1, 2] else if b = ''a'' then [1] else []),
                         token_eos = 0\<rparr>),
            from_string = (\<lambda>g. Inr (LlamaGrammar g))\<rparr>)
     \<lparr>chat_body.model = Some ''m'', logit_bias = Some [(''ab'', 1), (''a'', - 1)],
      logit_bias_type = Some ''tokens'', grammar = None, min_tokens = 0, other_fields = []\<rparr>)
     ''logit_bias''
     = Some (PDict [(''1'', PFloat (- 1)), (''2'', PFloat 1)]) \<and>
   passed (create_chat_completion
     (Some \<lparr>llama_proxy_call =
              (\<lambda>m. Inr \<lparr>tokenize = (\<lambda>b add_bos special.
                                       if b = ''ab'' then [1, 2] else if b = ''a'' then [1] else []),
                         token_eos = 0\<rparr>),
            from_string = (\<lambda>g. Inr (LlamaGrammar g))\<rparr>)
     \<lparr>chat_body.model = Some ''m'', logit_bias = Some [(''15'', 1), (''7'', - 1)],
      logit_bias_type = Some ''input_ids'', grammar = None, min_tokens = 0, other_fields = []\<rparr>)
     ''logit_bias''
     = Some (PDict [(''15'', PFloat 1), (''7'', PFloat (- 1))])"
proof -
  let ?L = "\<lparr>tokenize = (\<lambda>b add_bos special.
                    if b = ''ab'' then [1, 2] else if b = ''a'' then [1] else []),
             token_eos = 0\<rparr>"
  let ?E = "\<lparr>llama_proxy_call = (\<lambda>m. Inr ?L), from_string = (\<lambda>g. Inr (LlamaGrammar g))\<rparr>"
  let ?bias = "[(''ab'', 1), (''a'', - 1)] :: (string \<times> real) list"
  let ?ids = "[(''15'', 1), (''7'', - 1)] :: (string \<times> real) list"
  let ?T = "\<lparr>chat_body.model = Some ''m'', logit_bias = Some ?bias,
             logit_bias_type = Some ''tokens'', grammar = None, min_tokens = 0, other_fields = []\<rparr>"
  let ?I = "\<lparr>chat_body.model = Some ''m'', logit_bias = Some ?ids,
             logit_bias_type = Some ''input_ids'', grammar = None, min_tokens = 0, other_fields = []\<rparr>"
  let ?B = "\<lparr>chat_body.model = Some ''m'', logit_bias = None, logit_bias_type = None,
             grammar = None, min_tokens = 0, other_fields = [], prompt = PromptStr ''Once''\<rparr>"
  have conv: "logit_bias_tokens_to_input_ids ?L ?bias = [(''1'', - 1), (''2'', 1)]"
    by (simp add: logit_bias_tokens_to_input_ids_def encode_utf8_def str_int_def str_nat.simps
          digit_def)
  have asg: "bias_assignments ?L ?bias = [(''1'', 1), (''2'', 1), (''1'', - 1)]"
    by (simp add: bias_assignments_def encode_utf8_def str_int_def str_nat.simps digit_def)
  have two: "str_int 2 = ''2''"
    by (simp add: str_int_def str_nat.simps digit_def)
  have h1: "(''ab'', 1) \<in> set ?bias \<and> 2 \<in> set (tokenize ?L (encode_utf8 ''ab'') False True) \<and>
            (\<forall>a \<in> set (bias_assignments ?L ?bias). fst a = str_int 2 \<longrightarrow> snd a = 1)"
    by (simp add: asg two encode_utf8_def)
  have rT: "returns (create_chat_completion (Some ?E) ?T)"
    by (simp add: create_chat_completion_def shape_kwargs_def set_grammar_def
          set_logit_bias_def set_min_tokens_def)
  have rI: "returns (create_chat_completion (Some ?E) ?I)"
    by (simp add: create_chat_completion_def shape_kwargs_def set_grammar_def
          set_logit_bias_def set_min_tokens_def)
  have pT: "returns (create_chat_completion (Some ?E) ?T) \<and> logit_bias ?T = Some ?bias \<and>
            llama_proxy_call ?E (chat_body.model ?T) = Inr ?L"
    using rT by simp
  have pI: "returns (create_chat_completion (Some ?E) ?I) \<and> logit_bias ?I = Some ?ids \<and>
            llama_proxy_call ?E (chat_body.model ?I) = Inr ?L"
    using rI by simp
  note thT = logit_bias_assignments_in_order
               [of ?L ?bias "''ab''" 1 2 ?E "''/v1/completions''" ?B ?T]
  note thI = logit_bias_assignments_in_order
               [of ?L ?ids "''ab''" 1 2 ?E "''/v1/completions''" ?B ?I]
  note 1 = thT[THEN conjunct2, THEN conjunct1, THEN mp, OF h1]
  note 2 = thT[THEN conjunct2, THEN conjunct2, THEN conjunct2, THEN mp, OF pT]
  note 3 = thI[THEN conjunct2, THEN conjunct2, THEN conjunct2, THEN mp, OF pI]
  have a: "map_of (logit_bias_tokens_to_input_ids ?L ?bias) ''2'' = Some 1"
    using 1 by (simp add: two)
  have b: "passed (create_chat_completion (Some ?E) ?T) ''logit_bias'' =
       Some (PDict [(''1'', PFloat (- 1)), (''2'', PFloat 1)])"
    using 2 by (simp add: conv bias_dict_def)
  have c: "passed (create_chat_completion (Some ?E) ?I) ''logit_bias'' =
       Some (PDict [(''15'', PFloat 1), (''7'', PFloat (- 1))])"
    using 3 by (simp add: chat_fields_def bias_dict_def)
  show ?thesis using a b c by (intro conjI)
qed

section \<open>Request shaping: which fields are dropped and which are kept\<close>

lemma shape_kwargs_untouched:
  assumes "shape_kwargs env llama body kwargs = Inr kwargs'"
  shows "(logit_bias body = None \<longrightarrow> kwargs' ''logit_bias'' = kwargs ''logit_bias'') \<and>
         (grammar body = None \<longrightarrow> kwargs' ''grammar'' = kwargs ''grammar'') \<and>
         (\<not> 0 < min_tokens body \<longrightarrow> kwargs' ''logits_processor'' = kwargs ''logits_processor'')"
proof -
  from assms(1) obtain kw where
    g: "set_grammar env body (set_logit_bias llama body kwargs) = Inr kw" and
    m: "set_min_tokens llama body kw = Inr kwargs'"
    by (auto simp add: shape_kwargs_def split: sum.splits)
  have 1: "logit_bias body = None \<longrightarrow> kwargs' ''logit_bias'' = kwargs ''logit_bias''"
    using set_min_tokens_frame[OF m, of "''logit_bias''"]
          set_grammar_frame[OF g, of "''logit_bias''"]
    by (simp add: set_logit_bias_def)
  have 2: "grammar body = None \<longrightarrow> kwargs' ''grammar'' = kwargs ''grammar''"
    using set_min_tokens_frame[OF m, of "''grammar''"] g
    by (auto simp add: set_grammar_def set_logit_bias_frame)
  have 3: "\<not> 0 < min_tokens body \<longrightarrow> kwargs' ''logits_processor'' = kwargs ''logits_processor''"
    using m set_grammar_frame[OF g, of "''logits_processor''"]
    by (auto simp add: set_min_tokens_def set_logit_bias_frame)
  from 1 2 3 show ?thesis by blast
qed

lemma create_completion_frame:
  assumes "returns (create_completion proxy path body)"
  shows "(\<forall>k \<in> exclude_completion. passed (create_completion proxy path body) k = None) \<and>
      (\<forall>k. k \<notin> exclude_completion \<union> {''logit_bias'', ''grammar'', ''logits_processor'', ''prompt''} \<longrightarrow>
           passed (create_completion proxy path body) k = completion_fields body k) \<and>
      (logit_bias body = None \<longrightarrow>
         passed (create_completion proxy path body) ''logit_bias'' = completion_fields body ''logit_bias'') \<and>
      (grammar body = None \<longrightarrow>
         passed (create_completion proxy path body) ''grammar'' = completion_fields body ''grammar'') \<and>
      (\<not> 0 < min_tokens body \<longrightarrow>
         passed (create_completion proxy path body) ''logits_processor'' =
           completion_fields body ''logits_processor'') \<and>
      (\<forall>s. prompt body = PromptStr s \<longrightarrow>
         passed (create_completion proxy path body) ''prompt'' = completion_fields body ''prompt'')"
proof -
  from assms obtain kwargs where r: "create_completion proxy path body = Inr kwargs"
    by (auto dest: returns_Inr)
  then obtain env p llama where
    p: "single_prompt (prompt body) = Inr p" and
    sh: "shape_kwargs env llama (body\<lparr>prompt := p\<rparr>)
           (model_dump exclude_completion (completion_fields (body\<lparr>prompt := p\<rparr>))) = Inr kwargs"
    by (rule create_completion_cases)
  let ?d = "model_dump exclude_completion (completion_fields (body\<lparr>prompt := p\<rparr>))"
  have d: "\<And>k. ?d k = (if k \<in> exclude_completion then None
                          else if k = ''prompt'' then Some (prompt_dump p)
                          else completion_fields body k)"
    by (simp add: model_dump_apply completion_fields_prompt_update)
  have ex: "''logit_bias'' \<notin> exclude_completion" "''grammar'' \<notin> exclude_completion"
    "''logits_processor'' \<notin> exclude_completion" "''prompt'' \<notin> exclude_completion"
    by (simp_all add: exclude_completion_def)
  note fr = shape_kwargs_frame[OF sh]
  note un = shape_kwargs_untouched[OF sh]
  have 1: "\<forall>k \<in> exclude_completion. passed (create_completion proxy path body) k = None"
  proof
    fix k assume k: "k \<in> exclude_completion"
    then have "k \<noteq> ''logit_bias''" "k \<noteq> ''grammar''" "k \<noteq> ''logits_processor''"
      using ex by auto
    from fr[OF this] k show "passed (create_completion proxy path body) k = None"
      by (simp add: r d)
  qed
  have 2: "\<forall>k. k \<notin> exclude_completion \<union> {''logit_bias'', ''grammar'', ''logits_processor'', ''prompt''} \<longrightarrow>
           passed (create_completion proxy path body) k = completion_fields body k"
  proof (intro allI impI)
    fix k
    assume k: "k \<notin> exclude_completion \<union> {''logit_bias'', ''grammar'', ''logits_processor'', ''prompt''}"
    then have "k \<noteq> ''logit_bias''" "k \<noteq> ''grammar''" "k \<noteq> ''logits_processor''" by auto
    from fr[OF this] k show "passed (create_completion proxy path body) k = completion_fields body k"
      by (simp add: r d)
  qed
  have 3: "logit_bias body = None \<longrightarrow>
         passed (create_completion proxy path body) ''logit_bias'' = completion_fields body ''logit_bias''"
    using un ex by (simp add: r d)
  have 4: "grammar body = None \<longrightarrow>
         passed (create_completion proxy path body) ''grammar'' = completion_fields body ''grammar''"
    using un ex by (simp add: r d)
  have 5: "\<not> 0 < min_tokens body \<longrightarrow>
         passed (create_completion proxy path body) ''logits_processor'' =
           completion_fields body ''logits_processor''"
    using un ex by (simp add: r d)
  have 6: "\<forall>s. prompt body = PromptStr s \<longrightarrow>
         passed (create_completion proxy path body) ''prompt'' = completion_fields body ''prompt''"
  proof (intro allI impI)
    fix s assume "prompt body = PromptStr s"
    with p have ps: "p = PromptStr s" by simp
    have cf: "completion_fields body ''prompt'' = Some (PStr s)"
      using \<open>prompt body = PromptStr s\<close> by (simp add: completion_fields_def)
    have "kwargs ''prompt'' = Some (prompt_dump p)"
      using fr[of "''prompt''"] ex by (simp add: d)
    with ps show "passed (create_completion proxy path body) ''prompt'' = completion_fields body ''prompt''"
      by (simp add: r cf)
  qed
  from 1 2 3 4 5 6 show ?thesis by blast
qed

lemma create_chat_completion_frame:
  assumes "returns (create_chat_completion proxy cbody)"
  shows "(\<forall>k \<in> exclude_chat. passed (create_chat_completion proxy cbody) k = None) \<and>
      (\<forall>k. k \<notin> exclude_chat \<union> {''logit_bias'', ''grammar'', ''logits_processor''} \<longrightarrow>
           passed (create_chat_completion proxy cbody) k = chat_fields cbody k) \<and>
      (logit_bias cbody = None \<longrightarrow>
         passed (create_chat_completion proxy cbody) ''logit_bias'' = chat_fields cbody ''logit_bias'') \<and>
      (grammar cbody = None \<longrightarrow>
         passed (create_chat_completion proxy cbody) ''grammar'' = chat_fields cbody ''grammar'') \<and>
      (\<not> 0 < min_tokens cbody \<longrightarrow>
         passed (create_chat_completion proxy cbody) ''logits_processor'' =
           chat_fields cbody ''logits_processor'')"
proof -
  from assms obtain kwargs where r: "create_chat_completion proxy cbody = Inr kwargs"
    by (auto dest: returns_Inr)
  then obtain env llama where
    sh: "shape_kwargs env llama cbody (model_dump exclude_chat (chat_fields cbody)) = Inr kwargs"
    by (auto simp add: create_chat_completion_def split: option.splits sum.splits)
  have ex: "''logit_bias'' \<notin> exclude_chat" "''grammar'' \<notin> exclude_chat"
    "''logits_processor'' \<notin> exclude_chat"
    by (simp_all add: exclude_chat_def)
  note fr = shape_kwargs_frame[OF sh]
  note un = shape_kwargs_untouched[OF sh]
  have 1: "\<forall>k \<in> exclude_chat. passed (create_chat_completion proxy cbody) k = None"
  proof
    fix k assume k: "k \<in> exclude_chat"
    then have "k \<noteq> ''logit_bias''" "k \<noteq> ''grammar''" "k \<noteq> ''logits_processor''"
      using ex by auto
    from fr[OF this] k show "passed (create_chat_completion proxy cbody) k = None"
      by (simp add: r model_dump_apply)
  qed
  have 2: "\<forall>k. k \<notin> exclude_chat \<union> {''logit_bias'', ''grammar'', ''logits_processor''} \<longrightarrow>
           passed (create_chat_completion proxy cbody) k = chat_fields cbody k"
  proof (intro allI impI)
    fix k
    assume k: "k \<notin> exclude_chat \<union> {''logit_bias'', ''grammar'', ''logits_processor''}"
    then have "k \<noteq> ''logit_bias''" "k \<noteq> ''grammar''" "k \<noteq> ''logits_processor''" by auto
    from fr[OF this] k show "passed (create_chat_completion proxy cbody) k = chat_fields cbody k"
      by (simp add: r model_dump_apply)
  qed
  have 3: "logit_bias cbody = None \<longrightarrow>
         passed (create_chat_completion proxy cbody) ''logit_bias'' = chat_fields cbody ''logit_bias''"
    using un ex by (simp add: r model_dump_apply)
  have 4: "grammar cbody = None \<longrightarrow>
         passed (create_chat_completion proxy cbody) ''grammar'' = chat_fields cbody ''grammar''"
    using un ex by (simp add: r model_dump_apply)
  have 5: "\<not> 0 < min_tokens cbody \<longrightarrow>
         passed (create_chat_completion proxy cbody) ''logits_processor'' =
           chat_fields cbody ''logits_processor''"
    using un ex by (simp add: r model_dump_apply)
  from 1 2 3 4 5 show ?thesis by blast
qed
lemma shape_kwargs_min_tokens_result:
  assumes "shape_kwargs env llama body kwargs = Inr kwargs'" and "0 < min_tokens body"
  shows "kwargs' ''logits_processor'' =
         (case kwargs ''logits_processor'' of
            None \<Rightarrow> Some (LogitsProcessorList
                           [MinTokensLogitsProcessor (min_tokens body) (token_eos llama)])
          | Some present \<Rightarrow>
              (case py_extend present
                      [MinTokensLogitsProcessor (min_tokens body) (token_eos llama)] of
                 Inl e \<Rightarrow> None
               | Inr extended \<Rightarrow> Some extended))"
proof -
  from assms(1) obtain kw where
    g: "set_grammar env body (set_logit_bias llama body kwargs) = Inr kw" and
    m: "set_min_tokens llama body kw = Inr kwargs'"
    by (auto simp add: shape_kwargs_def split: sum.splits)
  have kw: "kw ''logits_processor'' = kwargs ''logits_processor''"
    using set_grammar_frame[OF g, of "''logits_processor''"]
    by (simp add: set_logit_bias_frame)
  from m assms(2) kw show ?thesis
    by (auto simp add: set_min_tokens_def split: option.splits sum.splits)
qed

lemma shape_kwargs_grammar_result:
  assumes "shape_kwargs env llama body kwargs = Inr kwargs'" and "grammar body = Some g"
  shows "from_string env g = Inr (the (kwargs' ''grammar'')) \<and> kwargs' ''grammar'' \<noteq> None"
proof -
  from assms(1) obtain kw where
    g: "set_grammar env body (set_logit_bias llama body kwargs) = Inr kw" and
    m: "set_min_tokens llama body kw = Inr kwargs'"
    by (auto simp add: shape_kwargs_def split: sum.splits)
  have "kwargs' ''grammar'' = kw ''grammar''"
    using set_min_tokens_frame[OF m, of "''grammar''"] by simp
  with g assms(2) show ?thesis
    by (auto simp add: set_grammar_def split: sum.splits)
qed

lemma create_completion_transformed:
  "(returns (create_completion proxy path body) \<and> proxy = Some env \<and>
    llama_proxy_call env (completion_model path body) = Inr llama \<and> 0 < min_tokens body \<longrightarrow>
      passed (create_completion proxy path body) ''logits_processor'' =
        (case completion_fields body ''logits_processor'' of
           None \<Rightarrow> Some (LogitsProcessorList
                          [MinTokensLogitsProcessor (min_tokens body) (token_eos llama)])
         | Some present \<Rightarrow>
             (case py_extend present
                     [MinTokensLogitsProcessor (min_tokens body) (token_eos llama)] of
                Inl e \<Rightarrow> None
              | Inr extended \<Rightarrow> Some extended))) \<and>
   (returns (create_completion proxy path body) \<and> proxy = Some env \<and>
    grammar body = Some g \<and> from_string env g = Inr compiled \<longrightarrow>
      passed (create_completion proxy path body) ''grammar'' = Some compiled)"
proof (intro conjI impI)
  assume a: "returns (create_completion proxy path body) \<and> proxy = Some env \<and>
    llama_proxy_call env (completion_model path body) = Inr llama \<and> 0 < min_tokens body"
  then obtain kwargs where r: "create_completion proxy path body = Inr kwargs"
    by (auto dest: returns_Inr)
  then obtain env' p llama' where e: "proxy = Some env'"
    and l: "llama_proxy_call env' (completion_model path body) = Inr llama'"
    and sh: "shape_kwargs env' llama' (body\<lparr>prompt := p\<rparr>)
           (model_dump exclude_completion (completion_fields (body\<lparr>prompt := p\<rparr>))) = Inr kwargs"
    by (rule create_completion_cases)
  from e l a have ll: "llama' = llama" by simp
  have d: "model_dump exclude_completion (completion_fields (body\<lparr>prompt := p\<rparr>))
             ''logits_processor'' = completion_fields body ''logits_processor''"
    by (simp add: model_dump_apply exclude_completion_def completion_fields_logits_processor)
  have "0 < min_tokens (body\<lparr>prompt := p\<rparr>)" using a by simp
  from shape_kwargs_min_tokens_result[OF sh this] ll
  show "passed (create_completion proxy path body) ''logits_processor'' =
        (case completion_fields body ''logits_processor'' of
           None \<Rightarrow> Some (LogitsProcessorList
                          [MinTokensLogitsProcessor (min_tokens body) (token_eos llama)])
         | Some present \<Rightarrow>
             (case py_extend present
                     [MinTokensLogitsProcessor (min_tokens body) (token_eos llama)] of
                Inl e \<Rightarrow> None
              | Inr extended \<Rightarrow> Some extended))"
    by (simp add: r d split: option.splits sum.splits)
next
  assume a: "returns (create_completion proxy path body) \<and> proxy = Some env \<and>
    grammar body = Some g \<and> from_string env g = Inr compiled"
  then obtain kwargs where r: "create_completion proxy path body = Inr kwargs"
    by (auto dest: returns_Inr)
  then obtain env' p llama' where e: "proxy = Some env'"
    and sh: "shape_kwargs env' llama' (body\<lparr>prompt := p\<rparr>)
           (model_dump exclude_completion (completion_fields (body\<lparr>prompt := p\<rparr>))) = Inr kwargs"
    by (rule create_completion_cases)
  from e a have ee: "env' = env" by simp
  have "grammar (body\<lparr>prompt := p\<rparr>) = Some g" using a by simp
  from shape_kwargs_grammar_result[OF sh this] ee a
  have "kwargs ''grammar'' = Some compiled" by auto
  then show "passed (create_completion proxy path body) ''grammar'' = Some compiled"
    by (simp add: r)
qed

lemma create_chat_completion_transformed:
  "(returns (create_chat_completion proxy cbody) \<and> proxy = Some env \<and>
    llama_proxy_call env (chat_body.model cbody) = Inr llama \<and> 0 < min_tokens cbody \<longrightarrow>
      passed (create_chat_completion proxy cbody) ''logits_processor'' =
        (case chat_fields cbody ''logits_processor'' of
           None \<Rightarrow> Some (LogitsProcessorList
                          [MinTokensLogitsProcessor (min_tokens cbody) (token_eos llama)])
         | Some present \<Rightarrow>
             (case py_extend present
                     [MinTokensLogitsProcessor (min_tokens cbody) (token_eos llama)] of
                Inl e \<Rightarrow> None
              | Inr extended \<Rightarrow> Some extended))) \<and>
   (returns (create_chat_completion proxy cbody) \<and> proxy = Some env \<and>
    grammar cbody = Some g \<and> from_string env g = Inr compiled \<longrightarrow>
      passed (create_chat_completion proxy cbody) ''grammar'' = Some compiled)"
proof (intro conjI impI)
  assume a: "returns (create_chat_completion proxy cbody) \<and> proxy = Some env \<and>
    llama_proxy_call env (chat_body.model cbody) = Inr llama \<and> 0 < min_tokens cbody"
  then obtain kwargs where r: "create_chat_completion proxy cbody = Inr kwargs"
    by (auto dest: returns_Inr)
  with a have sh:
    "shape_kwargs env llama cbody (model_dump exclude_chat (chat_fields cbody)) = Inr kwargs"
    by (auto simp add: create_chat_completion_def)
  have d: "model_dump exclude_chat (chat_fields cbody) ''logits_processor'' =
           chat_fields cbody ''logits_processor''"
    by (simp add: model_dump_apply exclude_chat_def)
  from a have "0 < min_tokens cbody" by simp
  from shape_kwargs_min_tokens_result[OF sh this]
  show "passed (create_chat_completion proxy cbody) ''logits_processor'' =
        (case chat_fields cbody ''logits_processor'' of
           None \<Rightarrow> Some (LogitsProcessorList
                          [MinTokensLogitsProcessor (min_tokens cbody) (token_eos llama)])
         | Some present \<Rightarrow>
             (case py_extend present
                     [MinTokensLogitsProcessor (min_tokens cbody) (token_eos llama)] of
                Inl e \<Rightarrow> None
              | Inr extended \<Rightarrow> Some extended))"
    by (simp add: r d split: option.splits sum.splits)
next
  assume a: "returns (create_chat_completion proxy cbody) \<and> proxy = Some env \<and>
    grammar cbody = Some g \<and> from_string env g = Inr compiled"
  then obtain kwargs where r: "create_chat_completion proxy cbody = Inr kwargs"
    by (auto dest: returns_Inr)
  with a obtain llama' where sh:
    "shape_kwargs env llama' cbody (model_dump exclude_chat (chat_fields cbody)) = Inr kwargs"
    by (auto simp add: create_chat_completion_def split: sum.splits)
  from a have "grammar cbody = Some g" by simp
  from shape_kwargs_grammar_result[OF sh this] a
  have "kwargs ''grammar'' = Some compiled" by auto
  then show "passed (create_chat_completion proxy cbody) ''grammar'' = Some compiled"
    by (simp add: r)
qed

text \<open>
  C9, as the specification states it, lets no field of the request be altered on its
  way to the engine but the logit bias, the grammar and the logits processor.
  \<^verbatim>\<open>create_completion\<close> also rewrites the prompt before the dump: a request with
  the prompt \<^verbatim>\<open>["hi"]\<close> reaches the engine with the prompt \<^verbatim>\<open>"hi"\<close>, which is
  not the value of the field in the request.
\<close>

theorem list_prompt_is_altered:
  "returns (create_completion
     (Some \<lparr>llama_proxy_call = (\<lambda>m. Inr \<lparr>tokenize = (\<lambda>b add_bos special. []), token_eos = 2\<rparr>),
            from_string = (\<lambda>g. Inr (LlamaGrammar g))\<rparr>)
     ''/v1/completions''
     \<lparr>chat_body.model = None, logit_bias = None, logit_bias_type = None, grammar = None,
      min_tokens = 0, other_fields = [], prompt = PromptList [''hi'']\<rparr>) \<and>
   passed (create_completion
     (Some \<lparr>llama_proxy_call = (\<lambda>m. Inr \<lparr>tokenize = (\<lambda>b add_bos special. []), token_eos = 2\<rparr>),
            from_string = (\<lambda>g. Inr (LlamaGrammar g))\<rparr>)
     ''/v1/completions''
     \<lparr>chat_body.model = None, logit_bias = None, logit_bias_type = None, grammar = None,
      min_tokens = 0, other_fields = [], prompt = PromptList [''hi'']\<rparr>) ''prompt''
     = Some (PStr ''hi'') \<and>
   completion_fields
     \<lparr>chat_body.model = None, logit_bias = None, logit_bias_type = None, grammar = None,
      min_tokens = 0, other_fields = [], prompt = PromptList [''hi'']\<rparr> ''prompt''
     = Some (PList [PStr ''hi''])"
  by (simp add: create_completion_def completion_model_def shape_kwargs_def set_grammar_def
        set_logit_bias_def set_min_tokens_def model_dump_def completion_fields_def
        chat_fields_def exclude_completion_def)

text \<open>
  C9, amended. In every completion and chat-completion request that reaches the
  engine, the fields \<^verbatim>\<open>n\<close>, \<^verbatim>\<open>logit_bias_type\<close>, \<^verbatim>\<open>user\<close> and
  \<^verbatim>\<open>min_tokens\<close> (and \<^verbatim>\<open>best_of\<close> for text completion) are not among the keyword
  arguments. Every other field is passed with the value it has in the request, except
  \<^verbatim>\<open>logit_bias\<close>, \<^verbatim>\<open>grammar\<close> and \<^verbatim>\<open>logits_processor\<close> and, for text
  completion, \<^verbatim>\<open>prompt\<close>; and each of these four is passed unchanged too when its
  transformation does not apply (no logit bias, no grammar, no positive
  \<^verbatim>\<open>min_tokens\<close>, a prompt that is a string). A request reaches the engine exactly
  when the proxy is there, a list prompt has at most one element, the proxy gives the
  engine for the model, the grammar (if any) compiles, and, with a positive
  \<^verbatim>\<open>min_tokens\<close>, the dumped \<^verbatim>\<open>logits_processor\<close> is absent or has
  \<^verbatim>\<open>extend\<close> (a processor list or a plain list). Then a positive
  \<^verbatim>\<open>min_tokens\<close> installs the one-member processor list when the key is absent and
  appends the processor to the value that is there otherwise, and a grammar is passed
  as what \<^verbatim>\<open>LlamaGrammar.from_string\<close> returns for it.
\<close>

theorem excluded_fields_dropped_others_kept:
  "(returns (create_completion proxy path body) \<longrightarrow>
      (\<forall>k \<in> exclude_completion. passed (create_completion proxy path body) k = None) \<and>
      (\<forall>k. k \<notin> exclude_completion \<union>
                  {''logit_bias'', ''grammar'', ''logits_processor'', ''prompt''} \<longrightarrow>
           passed (create_completion proxy path body) k = completion_fields body k) \<and>
      (logit_bias body = None \<longrightarrow>
         passed (create_completion proxy path body) ''logit_bias'' =
           completion_fields body ''logit_bias'') \<and>
      (grammar body = None \<longrightarrow>
         passed (create_completion proxy path body) ''grammar'' =
           completion_fields body ''grammar'') \<and>
      (\<not> 0 < min_tokens body \<longrightarrow>
         passed (create_completion proxy path body) ''logits_processor'' =
           completion_fields body ''logits_processor'') \<and>
      (\<forall>s. prompt body = PromptStr s \<longrightarrow>
         passed (create_completion proxy path body) ''prompt'' =
           completion_fields body ''prompt'')) \<and>
   (returns (create_chat_completion proxy cbody) \<longrightarrow>
      (\<forall>k \<in> exclude_chat. passed (create_chat_completion proxy cbody) k = None) \<and>
      (\<forall>k. k \<notin> exclude_chat \<union> {''logit_bias'', ''grammar'', ''logits_processor''} \<longrightarrow>
           passed (create_chat_completion proxy cbody) k = chat_fields cbody k) \<and>
      (logit_bias cbody = None \<longrightarrow>
         passed (create_chat_completion proxy cbody) ''logit_bias'' =
           chat_fields cbody ''logit_bias'') \<and>
      (grammar cbody = None \<longrightarrow>
         passed (create_chat_completion proxy cbody) ''grammar'' =
           chat_fields cbody ''grammar'') \<and>
      (\<not> 0 < min_tokens cbody \<longrightarrow>
         passed (create_chat_completion proxy cbody) ''logits_processor'' =
           chat_fields cbody ''logits_processor'')) \<and>
   (returns (create_completion proxy path body) \<longleftrightarrow>
      (\<exists>env llama. proxy = Some env \<and>
         (\<forall>xs. prompt body = PromptList xs \<longrightarrow> length xs \<le> 1) \<and>
         llama_proxy_call env (completion_model path body) = Inr llama \<and>
         (\<forall>g. grammar body = Some g \<longrightarrow> returns (from_string env g)) \<and>
         (0 < min_tokens body \<longrightarrow> extendable (completion_fields body ''logits_processor'')))) \<and>
   (returns (create_chat_completion proxy cbody) \<longleftrightarrow>
      (\<exists>env llama. proxy = Some env \<and>
         llama_proxy_call env (chat_body.model cbody) = Inr llama \<and>
         (\<forall>g. grammar cbody = Some g \<longrightarrow> returns (from_string env g)) \<and>
         (0 < min_tokens cbody \<longrightarrow> extendable (chat_fields cbody ''logits_processor'')))) \<and>
   (returns (create_completion proxy path body) \<and> proxy = Some env \<and>
    llama_proxy_call env (completion_model path body) = Inr llama \<and> 0 < min_tokens body \<longrightarrow>
      passed (create_completion proxy path body) ''logits_processor'' =
        (case completion_fields body ''logits_processor'' of
           None \<Rightarrow> Some (LogitsProcessorList
                          [MinTokensLogitsProcessor (min_tokens body) (token_eos llama)])
         | Some present \<Rightarrow>
             (case py_extend present
                     [MinTokensLogitsProcessor (min_tokens body) (token_eos llama)] of
                Inl e \<Rightarrow> None
              | Inr extended \<Rightarrow> Some extended))) \<and>
   (returns (create_completion proxy path body) \<and> proxy = Some env \<and>
    grammar body = Some g \<and> from_string env g = Inr compiled \<longrightarrow>
      passed (create_completion proxy path body) ''grammar'' = Some compiled) \<and>
   (returns (create_chat_completion proxy cbody) \<and> proxy = Some env \<and>
    llama_proxy_call env (chat_body.model cbody) = Inr cllama \<and> 0 < min_tokens cbody \<longrightarrow>
      passed (create_chat_completion proxy cbody) ''logits_processor'' =
        (case chat_fields cbody ''logits_processor'' of
           None \<Rightarrow> Some (LogitsProcessorList
                          [MinTokensLogitsProcessor (min_tokens cbody) (token_eos cllama)])
         | Some present \<Rightarrow>
             (case py_extend present
                     [MinTokensLogitsProcessor (min_tokens cbody) (token_eos cllama)] of
                Inl e \<Rightarrow> None
              | Inr extended \<Rightarrow> Some extended))) \<and>
   (returns (create_chat_completion proxy cbody) \<and> proxy = Some env \<and>
    grammar cbody = Some cg \<and> from_string env cg = Inr ccompiled \<longrightarrow>
      passed (create_chat_completion proxy cbody) ''grammar'' = Some ccompiled)"
proof -
  have a: "returns (create_completion proxy path body) \<longrightarrow>
      (\<forall>k \<in> exclude_completion. passed (create_completion proxy path body) k = None) \<and>
      (\<forall>k. k \<notin> exclude_completion \<union>
                  {''logit_bias'', ''grammar'', ''logits_processor'', ''prompt''} \<longrightarrow>
           passed (create_completion proxy path body) k = completion_fields body k) \<and>
      (logit_bias body = None \<longrightarrow>
         passed (create_completion proxy path body) ''logit_bias'' =
           completion_fields body ''logit_bias'') \<and>
      (grammar body = None \<longrightarrow>
         passed (create_completion proxy path body) ''grammar'' =
           completion_fields body ''grammar'') \<and>
      (\<not> 0 < min_tokens body \<longrightarrow>
         passed (create_completion proxy path body) ''logits_processor'' =
           completion_fields body ''logits_processor'') \<and>
      (\<forall>s. prompt body = PromptStr s \<longrightarrow>
         passed (create_completion proxy path body) ''prompt'' =
           completion_fields body ''prompt'')"
    by (rule impI) (rule create_completion_frame)
  have b: "returns (create_chat_completion proxy cbody) \<longrightarrow>
      (\<forall>k \<in> exclude_chat. passed (create_chat_completion proxy cbody) k = None) \<and>
      (\<forall>k. k \<notin> exclude_chat \<union> {''logit_bias'', ''grammar'', ''logits_processor''} \<longrightarrow>
           passed (create_chat_completion proxy cbody) k = chat_fields cbody k) \<and>
      (logit_bias cbody = None \<longrightarrow>
         passed (create_chat_completion proxy cbody) ''logit_bias'' =
           chat_fields cbody ''logit_bias'') \<and>
      (grammar cbody = None \<longrightarrow>
         passed (create_chat_completion proxy cbody) ''grammar'' =
           chat_fields cbody ''grammar'') \<and>
      (\<not> 0 < min_tokens cbody \<longrightarrow>
         passed (create_chat_completion proxy cbody) ''logits_processor'' =
           chat_fields cbody ''logits_processor'')"
    by (rule impI) (rule create_chat_completion_frame)
  note c = create_completion_returns[of proxy path body]
  note d = create_chat_completion_returns[of proxy cbody]
  note e = create_completion_transformed[of proxy path body env llama g compiled]
  note f = create_chat_completion_transformed[of proxy cbody env cllama cg ccompiled]
  show ?thesis
    using a b c d e[THEN conjunct1] e[THEN conjunct2] f[THEN conjunct1] f[THEN conjunct2]
    by (intro conjI)
qed

theorem excluded_fields_dropped_others_kept_witness:
  "returns (create_completion
     (Some \<lparr>llama_proxy_call = (\<lambda>m. Inr \<lparr>tokenize = (\<lambda>b add_bos special. []), token_eos = 2\<rparr>),
            from_string = (\<lambda>g. Inr (LlamaGrammar g))\<rparr>)
     ''/v1/completions''
     \<lparr>chat_body.model = None, logit_bias = None, logit_bias_type = None, grammar = None,
      min_tokens = 5,
      other_fields = [(''n'', PInt 1), (''best_of'', PInt 1), (''user'', PStr ''u''),
                      (''max_tokens'', PInt 16)],
      prompt = PromptStr ''Once''\<rparr>) \<and>
   passed (create_completion
     (Some \<lparr>llama_proxy_call = (\<lambda>m. Inr \<lparr>tokenize = (\<lambda>b add_bos special. []), token_eos = 2\<rparr>),
            from_string = (\<lambda>g. Inr (LlamaGrammar g))\<rparr>)
     ''/v1/completions''
     \<lparr>chat_body.model = None, logit_bias = None, logit_bias_type = None, grammar = None,
      min_tokens = 5,
      other_fields = [(''n'', PInt 1), (''best_of'', PInt 1), (''user'', PStr ''u''),
                      (''max_tokens'', PInt 16)],
      prompt = PromptStr ''Once''\<rparr>) ''best_of'' = None \<and>
   passed (create_completion
     (Some \<lparr>llama_proxy_call = (\<lambda>m. Inr \<lparr>tokenize = (\<lambda>b add_bos special. []), token_eos = 2\<rparr>),
            from_string = (\<lambda>g. Inr (LlamaGrammar g))\<rparr>)
     ''/v1/completions''
     \<lparr>chat_body.model = None, logit_bias = None, logit_bias_type = None, grammar = None,
      min_tokens = 5,
      other_fields = [(''n'', PInt 1), (''best_of'', PInt 1), (''user'', PStr ''u''),
                      (''max_tokens'', PInt 16)],
      prompt = PromptStr ''Once''\<rparr>) ''max_tokens'' = Some (PInt 16) \<and>
   passed (create_completion
     (Some \<lparr>llama_proxy_call = (\<lambda>m. Inr \<lparr>tokenize = (\<lambda>b add_bos special. []), token_eos = 2\<rparr>),
            from_string = (\<lambda>g. Inr (LlamaGrammar g))\<rparr>)
     ''/v1/completions''
     \<lparr>chat_body.model = None, logit_bias = None, logit_bias_type = None, grammar = None,
      min_tokens = 5,
      other_fields = [(''n'', PInt 1), (''best_of'', PInt 1), (''user'', PStr ''u''),
                      (''max_tokens'', PInt 16)],
      prompt = PromptStr ''Once''\<rparr>) ''prompt'' = Some (PStr ''Once'') \<and>
   returns (create_chat_completion
     (Some \<lparr>llama_proxy_call = (\<lambda>m. Inr \<lparr>tokenize = (\<lambda>b add_bos special. []), token_eos = 2\<rparr>),
            from_string = (\<lambda>g. Inr (LlamaGrammar g))\<rparr>)
     \<lparr>chat_body.model = None, logit_bias = None, logit_bias_type = None, grammar = None,
      min_tokens = 5,
      other_fields = [(''n'', PInt 1), (''best_of'', PInt 1), (''user'', PStr ''u''),
                      (''logits_processor'', PList [])]\<rparr>) \<and>
   passed (create_chat_completion
     (Some \<lparr>llama_proxy_call = (\<lambda>m. Inr \<lparr>tokenize = (\<lambda>b add_bos special. []), token_eos = 2\<rparr>),
            from_string = (\<lambda>g. Inr (LlamaGrammar g))\<rparr>)
     \<lparr>chat_body.model = None, logit_bias = None, logit_bias_type = None, grammar = None,
      min_tokens = 5,
      other_fields = [(''n'', PInt 1), (''best_of'', PInt 1), (''user'', PStr ''u''),
                      (''logits_processor'', PList [])]\<rparr>) ''user'' = None \<and>
   passed (create_chat_completion
     (Some \<lparr>llama_proxy_call = (\<lambda>m. Inr \<lparr>tokenize = (\<lambda>b add_bos special. []), token_eos = 2\<rparr>),
            from_string = (\<lambda>g. Inr (LlamaGrammar g))\<rparr>)
     \<lparr>chat_body.model = None, logit_bias = None, logit_bias_type = None, grammar = None,
      min_tokens = 5,
      other_fields = [(''n'', PInt 1), (''best_of'', PInt 1), (''user'', PStr ''u''),
                      (''logits_processor'', PList [])]\<rparr>) ''best_of'' = Some (PInt 1) \<and>
   passed (create_chat_completion
     (Some \<lparr>llama_proxy_call = (\<lambda>m. Inr \<lparr>tokenize = (\<lambda>b add_bos special. []), token_eos = 2\<rparr>),
            from_string = (\<lambda>g. Inr (LlamaGrammar g))\<rparr>)
     \<lparr>chat_body.model = None, logit_bias = None, logit_bias_type = None, grammar = None,
      min_tokens = 5,
      other_fields = [(''n'', PInt 1), (''best_of'', PInt 1), (''user'', PStr ''u''),
                      (''logits_processor'', PList [])]\<rparr>) ''logits_processor''
     = Some (PList [PProcessor (MinTokensLogitsProcessor 5 2)])"
proof -
  let ?L = "\<lparr>tokenize = (\<lambda>b add_bos special. []), token_eos = 2\<rparr>"
  let ?E = "\<lparr>llama_proxy_call = (\<lambda>m. Inr ?L), from_string = (\<lambda>g. Inr (LlamaGrammar g))\<rparr>"
  let ?B = "\<lparr>chat_body.model = None, logit_bias = None, logit_bias_type = None, grammar = None,
             min_tokens = 5,
             other_fields = [(''n'', PInt 1), (''best_of'', PInt 1), (''user'', PStr ''u''),
                             (''max_tokens'', PInt 16)],
             prompt = PromptStr ''Once''\<rparr>"
  let ?C = "\<lparr>chat_body.model = None, logit_bias = None, logit_bias_type = None, grammar = None,
             min_tokens = 5,
             other_fields = [(''n'', PInt 1), (''best_of'', PInt 1), (''user'', PStr ''u''),
                             (''logits_processor'', PList [])]\<rparr>"
  let ?P = "''/v1/completions''"
  note th = excluded_fields_dropped_others_kept
              [of "Some ?E" ?P ?B ?C ?E ?L "[]" PNone ?L "[]" PNone]
  have fB: "completion_fields ?B ''logits_processor'' = None"
    by (simp add: completion_fields_def chat_fields_def)
  have fC: "chat_fields ?C ''logits_processor'' = Some (PList [])"
    by (simp add: chat_fields_def)
  have cB: "\<exists>env llama. Some ?E = Some env \<and>
              (\<forall>xs. prompt ?B = PromptList xs \<longrightarrow> length xs \<le> 1) \<and>
              llama_proxy_call env (completion_model ?P ?B) = Inr llama \<and>
              (\<forall>g. grammar ?B = Some g \<longrightarrow> returns (from_string env g)) \<and>
              (0 < min_tokens ?B \<longrightarrow> extendable (completion_fields ?B ''logits_processor''))"
    by (intro exI[of _ ?E] exI[of _ ?L]) (simp add: fB)
  have cC: "\<exists>env llama. Some ?E = Some env \<and>
              llama_proxy_call env (chat_body.model ?C) = Inr llama \<and>
              (\<forall>g. grammar ?C = Some g \<longrightarrow> returns (from_string env g)) \<and>
              (0 < min_tokens ?C \<longrightarrow> extendable (chat_fields ?C ''logits_processor''))"
    by (intro exI[of _ ?E] exI[of _ ?L]) (simp add: fC)
  note rB = th[THEN conjunct2, THEN conjunct2, THEN conjunct1, THEN iffD2, OF cB]
  note rC = th[THEN conjunct2, THEN conjunct2, THEN conjunct2, THEN conjunct1, THEN iffD2, OF cC]
  have k1: "''best_of'' \<in> exclude_completion" by (simp add: exclude_completion_def)
  have k2: "''max_tokens'' \<notin> exclude_completion \<union>
              {''logit_bias'', ''grammar'', ''logits_processor'', ''prompt''}"
    by (simp add: exclude_completion_def)
  have k3: "''user'' \<in> exclude_chat" by (simp add: exclude_chat_def)
  have k4: "''best_of'' \<notin> exclude_chat \<union> {''logit_bias'', ''grammar'', ''logits_processor''}"
    by (simp add: exclude_chat_def)
  have f2: "completion_fields ?B ''max_tokens'' = Some (PInt 16)"
    by (simp add: completion_fields_def chat_fields_def)
  have f3: "completion_fields ?B ''prompt'' = Some (PStr ''Once'')"
    by (simp add: completion_fields_def)
  have f4: "chat_fields ?C ''best_of'' = Some (PInt 1)"
    by (simp add: chat_fields_def)
  have pB: "prompt ?B = PromptStr ''Once''" by simp
  have mC: "returns (create_chat_completion (Some ?E) ?C) \<and> Some ?E = Some ?E \<and>
            llama_proxy_call ?E (chat_body.model ?C) = Inr ?L \<and> 0 < min_tokens ?C"
    using rC by simp
  note frB = th[THEN conjunct1, THEN mp, OF rB]
  note frC = th[THEN conjunct2, THEN conjunct1, THEN mp, OF rC]
  note 1 = frB[THEN conjunct1, THEN bspec, OF k1]
  note 2 = frB[THEN conjunct2, THEN conjunct1, THEN spec, THEN mp, OF k2]
  note 3 = frB[THEN conjunct2, THEN conjunct2, THEN conjunct2, THEN conjunct2, THEN conjunct2,
               THEN spec, THEN mp, OF pB]
  note 4 = frC[THEN conjunct1, THEN bspec, OF k3]
  note 5 = frC[THEN conjunct2, THEN conjunct1, THEN spec, THEN mp, OF k4]
  note 6 = th[THEN conjunct2, THEN conjunct2, THEN conjunct2, THEN conjunct2, THEN conjunct2,
              THEN conjunct2, THEN conjunct1, THEN mp, OF mC]
  have 7: "passed (create_chat_completion (Some ?E) ?C) ''logits_processor'' =
           Some (PList [PProcessor (MinTokensLogitsProcessor 5 2)])"
    using 6 by (simp add: fC)
  show ?thesis
    using rB 1 2[unfolded f2] 3[unfolded f3] rC 4 5[unfolded f4] 7
    by (intro conjI)
qed

end
